theory Spec2Isabelle
  imports Complex_Main
begin

section \<open>pdemtools.load: loading ArcticDEM / REMA strips and mosaics\<close>

text \<open>
  A shallow embedding of \<^verbatim>\<open>src/pdemtools/load.py\<close>. Python strings are modelled as
  \<^typ>\<open>string\<close> (ASCII), Python exceptions as values of the type \<open>error\<close>, and every call
  that touches a file or the network (\<^verbatim>\<open>rxr.open_rasterio\<close>, \<^verbatim>\<open>gpd.read_file\<close>) appends an
  event to an explicit log, so that statements about what was opened, and how often, can be
  made about the log. The collaborators the module only calls (rioxarray, geopandas, shapely,
  \<^verbatim>\<open>._utils.clip\<close>) are fields of a record \<open>world\<close>.
\<close>

subsection \<open>Python string operations used by the module\<close>

text \<open>\<^verbatim>\<open>str.lower()\<close> on ASCII: the letters \<^verbatim>\<open>A\<close> to \<^verbatim>\<open>Z\<close> move to \<^verbatim>\<open>a\<close> to \<^verbatim>\<open>z\<close>, every other
  character stays.\<close>

definition lower_char :: "char \<Rightarrow> char" where
  "lower_char c =
     (let n = (of_char c :: nat) in if 65 \<le> n \<and> n \<le> 90 then char_of (n + 32) else c)"

definition lower :: "string \<Rightarrow> string" where
  "lower s = map lower_char s"

text \<open>\<^verbatim>\<open>os.path.join(a, *p)\<close> as \<^verbatim>\<open>posixpath.join\<close> computes it: a component that starts with
  the separator discards what was joined so far; a separator is inserted unless the path so
  far is empty or already ends with one.\<close>

definition startswith_sep :: "string \<Rightarrow> bool" where
  "startswith_sep b = (b \<noteq> [] \<and> hd b = CHR ''/'')"

definition endswith_sep :: "string \<Rightarrow> bool" where
  "endswith_sep path = (path \<noteq> [] \<and> last path = CHR ''/'')"

definition join_step :: "string \<Rightarrow> string \<Rightarrow> string" where
  "join_step path b =
     (if startswith_sep b then b
      else if path = [] \<or> endswith_sep path then path @ b
      else path @ ''/'' @ b)"

definition path_join :: "string \<Rightarrow> string list \<Rightarrow> string" where
  "path_join a p = foldl join_step a p"

text \<open>\<^verbatim>\<open>s.split(sep)\<close> and \<^verbatim>\<open>s.replace(old, new)\<close> for a non-empty \<^verbatim>\<open>sep\<close> / \<^verbatim>\<open>old\<close> (the module
  only passes the literals \<^verbatim>\<open>"/external/"\<close> and \<^verbatim>\<open>".json"\<close>): a left-to-right scan for
  non-overlapping occurrences.\<close>

function split_acc :: "string \<Rightarrow> string \<Rightarrow> string \<Rightarrow> string list" where
  "split_acc sep acc [] = [rev acc]"
| "split_acc sep acc (c # cs) =
     (if sep \<noteq> [] \<and> take (length sep) (c # cs) = sep
      then rev acc # split_acc sep [] (drop (length sep) (c # cs))
      else split_acc sep (c # acc) cs)"
  by pat_completeness auto
termination
  by (relation "measure (\<lambda>(sep, acc, s). length s)") auto

definition split_str :: "string \<Rightarrow> string \<Rightarrow> string list" where
  "split_str s sep = split_acc sep [] s"

function replace :: "string \<Rightarrow> string \<Rightarrow> string \<Rightarrow> string" where
  "replace [] old new = []"
| "replace (c # cs) old new =
     (if old \<noteq> [] \<and> take (length old) (c # cs) = old
      then new @ replace (drop (length old) (c # cs)) old new
      else c # replace cs old new)"
  by pat_completeness auto
termination
  by (relation "measure (\<lambda>(s, old, new). length s)") auto

text \<open>\<^verbatim>\<open>needle in s\<close> on strings.\<close>

fun contains :: "string \<Rightarrow> string \<Rightarrow> bool" where
  "contains [] needle = (needle = [])"
| "contains (c # cs) needle =
     (take (length needle) (c # cs) = needle \<or> contains cs needle)"

text \<open>\<^verbatim>\<open>str(n)\<close> for an \<^verbatim>\<open>int\<close> (what \<^verbatim>\<open>f"{resolution}m"\<close> formats), and the lower-case
  hexadecimal digits of an address (what the \<^verbatim>\<open>repr\<close> of a built-in method prints).\<close>

definition digit_char :: "nat \<Rightarrow> char" where
  "digit_char d = (if d < 16 then ''0123456789abcdef'' ! d else CHR ''?'')"

function digits :: "nat \<Rightarrow> nat \<Rightarrow> string" where
  "digits base n =
     (if base < 2 \<or> n < base then [digit_char n]
      else digits base (n div base) @ [digit_char (n mod base)])"
  by pat_completeness auto
termination
  by (relation "measure (\<lambda>(base, n). n)") auto

declare digits.simps [simp del]

definition str_int :: "int \<Rightarrow> string" where
  "str_int i = (if i < 0 then CHR ''-'' # digits 10 (nat (- i)) else digits 10 (nat i))"

definition hex :: "nat \<Rightarrow> string" where
  "hex n = ''0x'' @ digits 16 n"

text \<open>\<^verbatim>\<open>repr\<close> of a string without quotes or escapes, and \<^verbatim>\<open>str\<close> of a list of such strings,
  as an f-string formats \<^verbatim>\<open>{VERSIONS[dataset]}\<close>.\<close>

definition repr_str :: "string \<Rightarrow> string" where
  "repr_str s = [CHR 0x27] @ s @ [CHR 0x27]"

fun comma_sep :: "string list \<Rightarrow> string" where
  "comma_sep [] = []"
| "comma_sep [x] = x"
| "comma_sep (x # y # ys) = x @ '', '' @ comma_sep (y # ys)"

definition str_list :: "string list \<Rightarrow> string" where
  "str_list xs = ''['' @ comma_sep (map repr_str xs) @ '']''"

subsection \<open>Data model\<close>

text \<open>Python exceptions. \<open>External\<close> is whatever a collaborator raises (a missing file, a
  network failure, \<^verbatim>\<open>NoDataInBounds\<close>); the module lets it propagate unchanged.\<close>

datatype error =
    ValueError string
  | TypeError string
  | AttributeError string
  | IndexError string
  | External string

text \<open>A raster cell is a float: not-a-number (the missing-data marker), an infinity or a
  finite value. The module only compares cells with constants, so finite values are reals.\<close>

datatype cell = NaN | NegInf | PosInf | Num real

text \<open>A \<^verbatim>\<open>DataArray\<close>: its named dimensions, each with its coordinate labels (the band
  numbers, the y and the x coordinates of the cell centres), and its cells in row-major
  order.\<close>

record raster =
  dims :: "(string \<times> real list) list"
  cells :: "cell list"

type_synonym bounds = "real \<times> real \<times> real \<times> real"

datatype polygon = Polygon "(real \<times> real) list"

datatype bounds_arg = BoundsTuple bounds | BoundsPolygon polygon

text \<open>A row of a packaged mosaic index.\<close>

record tile_record =
  tile :: string
  supertile :: string
  geometry :: polygon

text \<open>The \<^verbatim>\<open>row\<close> argument of \<^verbatim>\<open>preview\<close> and \<^verbatim>\<open>from_search\<close>: a GeoDataFrame (its
  \<^verbatim>\<open>s3url\<close> column) or one selected row (its \<^verbatim>\<open>s3url\<close> string).\<close>

datatype search_row = Frame "string list" | Row string

text \<open>\<^verbatim>\<open>resolution\<close> is an \<^verbatim>\<open>int\<close> or a \<^verbatim>\<open>str\<close>.\<close>

datatype res_arg = ResInt int | ResStr string

text \<open>\<^verbatim>\<open>resources.files(package).joinpath(fname)\<close>.\<close>

datatype resource = PackageFile string string

datatype io_event =
    OpenRaster string
  | ReadIndex resource string "bounds option"

text \<open>\<^verbatim>\<open>from_id\<close> returns the preview link or the loaded strip.\<close>

datatype from_id_result = PreviewPath string | Strip raster

text \<open>The collaborators. \<open>open_rasterio\<close>, \<open>clip\<close> (\<^verbatim>\<open>._utils.clip\<close>), \<open>clip_box\<close> and
  \<open>merge_arrays\<close> return \<open>Inl\<close> of a message when they raise. \<open>index_rows\<close> is the content
  of a layer of a packaged index file and \<open>intersects\<close> the \<^verbatim>\<open>bbox\<close> filter of
  \<^verbatim>\<open>gpd.read_file\<close>. \<open>set_key\<close> stands for the hash-dependent iteration order of a Python
  \<^verbatim>\<open>set\<close> of strings, and \<open>versions_id\<close> for the address of the \<^verbatim>\<open>VERSIONS\<close> dictionary.\<close>

record world =
  open_rasterio :: "string \<Rightarrow> string + raster"
  clip :: "raster \<Rightarrow> bounds \<Rightarrow> string + raster"
  clip_box :: "raster \<Rightarrow> bounds \<Rightarrow> string + raster"
  rio_bounds :: "raster \<Rightarrow> bounds"
  merge_arrays :: "raster list \<Rightarrow> string + raster"
  polygon_bounds :: "polygon \<Rightarrow> bounds"
  index_rows :: "resource \<Rightarrow> string \<Rightarrow> tile_record list"
  intersects :: "polygon \<Rightarrow> bounds \<Rightarrow> bool"
  set_key :: "string \<Rightarrow> nat"
  versions_id :: nat

subsection \<open>Module constants\<close>

definition VERSIONS :: "(string \<times> string list) list" where
  "VERSIONS = [(''arcticdem'', [''v3.0'', ''v4.1'']), (''rema'', [''v2.0''])]"

definition ARCTICDEM_V3_INDEX_FNAME :: string where
  "ARCTICDEM_V3_INDEX_FNAME = ''ArcticDEM_Mosaic_Index_v3_gpkg.gpkg''"

definition ARCTICDEM_V3_INDEX_2M_LAYER_NAME :: string where
  "ARCTICDEM_V3_INDEX_2M_LAYER_NAME = ''ArcticDEM_Mosaic_Index_v3_2m''"

definition ARCTICDEM_V4_INDEX_FNAME :: string where
  "ARCTICDEM_V4_INDEX_FNAME = ''ArcticDEM_Mosaic_Index_v4_1_gpkg.gpkg''"

definition ARCTICDEM_V4_INDEX_2M_LAYER_NAME :: string where
  "ARCTICDEM_V4_INDEX_2M_LAYER_NAME = ''ArcticDEM_Mosaic_Index_v4_1_2m''"

definition REMA_V2_INDEX_FNAME :: string where
  "REMA_V2_INDEX_FNAME = ''REMA_Mosaic_Index_v2_gpkg.gpkg''"

definition REMA_V2_INDEX_2M_LAYER_NAME :: string where
  "REMA_V2_INDEX_2M_LAYER_NAME = ''REMA_Mosaic_Index_v2_2m''"

definition PREFIX :: string where
  "PREFIX = ''https://pgc-opendata-dems.s3.us-west-2.amazonaws.com''"

definition VALID_MOSAIC_RES :: "string list" where
  "VALID_MOSAIC_RES = [''2m'', ''10m'', ''32m'']"

definition NODATA :: real where
  "NODATA = - 9999"

subsection \<open>Effects: a log of the files opened, and exceptions\<close>

type_synonym 'a io = "io_event list \<Rightarrow> (error + 'a) \<times> io_event list"

definition ret :: "'a \<Rightarrow> 'a io" where
  "ret x = (\<lambda>log. (Inr x, log))"

definition raise :: "error \<Rightarrow> 'a io" where
  "raise e = (\<lambda>log. (Inl e, log))"

definition bnd :: "'a io \<Rightarrow> ('a \<Rightarrow> 'b io) \<Rightarrow> 'b io" where
  "bnd m f = (\<lambda>log. case m log of (Inl e, log') \<Rightarrow> (Inl e, log') | (Inr x, log') \<Rightarrow> f x log')"

text \<open>The result of a call that does no input or output of its own.\<close>

definition pure :: "error + 'a \<Rightarrow> 'a io" where
  "pure r = (\<lambda>log. (r, log))"

definition ext :: "string + 'a \<Rightarrow> 'a io" where
  "ext r = pure (case r of Inl m \<Rightarrow> Inl (External m) | Inr x \<Rightarrow> Inr x)"

definition open_raster :: "world \<Rightarrow> string \<Rightarrow> raster io" where
  "open_raster w fpath =
     (\<lambda>log. (case open_rasterio w fpath of Inl m \<Rightarrow> Inl (External m) | Inr d \<Rightarrow> Inr d,
             log @ [OpenRaster fpath]))"

text \<open>The rows of an index layer that \<^verbatim>\<open>gpd.read_file(..., bbox=bounds)\<close> returns: all of them
  when \<^verbatim>\<open>bbox\<close> is \<^verbatim>\<open>None\<close>.\<close>

definition query_tiles :: "world \<Rightarrow> resource \<Rightarrow> string \<Rightarrow> bounds option \<Rightarrow> tile_record list" where
  "query_tiles w fpath layer bbox =
     filter (\<lambda>row. case bbox of None \<Rightarrow> True | Some b \<Rightarrow> intersects w (geometry row) b)
       (index_rows w fpath layer)"

definition read_file :: "world \<Rightarrow> resource \<Rightarrow> string \<Rightarrow> bounds option \<Rightarrow> tile_record list io" where
  "read_file w fpath layer bbox =
     (\<lambda>log. (Inr (query_tiles w fpath layer bbox), log @ [ReadIndex fpath layer bbox]))"

subsection \<open>Raster operations\<close>

text \<open>\<^verbatim>\<open>dem > x\<close> is false on not-a-number.\<close>

fun gt_cell :: "cell \<Rightarrow> real \<Rightarrow> bool" where
  "gt_cell NaN x = False"
| "gt_cell NegInf x = False"
| "gt_cell PosInf x = True"
| "gt_cell (Num v) x = (x < v)"

text \<open>\<^verbatim>\<open>dem.where(dem > x)\<close>: a cell that fails the test becomes not-a-number.\<close>

definition where_gt :: "raster \<Rightarrow> real \<Rightarrow> raster" where
  "where_gt dem x = dem\<lparr>cells := map (\<lambda>c. if gt_cell c x then c else NaN) (cells dem)\<rparr>"

text \<open>The coordinates of the cells of a raster, in the row-major order of its cells: one label
  per dimension, the first dimension varying slowest.\<close>

fun grid :: "(string \<times> real list) list \<Rightarrow> real list list" where
  "grid [] = [[]]"
| "grid ((name, labels) # ds) = concat (map (\<lambda>l. map ((#) l) (grid ds)) labels)"

text \<open>The cell of a raster at a coordinate (\<^verbatim>\<open>dem.sel(...)\<close>); coordinate labels along a
  dimension are taken to be distinct, as those of a raster are.\<close>

definition cell_at :: "raster \<Rightarrow> real list \<Rightarrow> cell option" where
  "cell_at r k = map_of (zip (grid (dims r)) (cells r)) k"

text \<open>\<^verbatim>\<open>dem.where(mask == 0)\<close>. xarray first aligns the two arrays with an inner join: along a
  dimension that both have, only the labels of \<^verbatim>\<open>dem\<close> that \<^verbatim>\<open>mask\<close> has too are kept, in the
  order of \<^verbatim>\<open>dem\<close>; a dimension of one array only is broadcast, the dimensions of \<^verbatim>\<open>mask\<close> alone
  coming last. At each coordinate of the joined grid the cell of \<^verbatim>\<open>dem\<close> is kept where the cell
  of \<^verbatim>\<open>mask\<close> is zero, and is not-a-number elsewhere.\<close>

definition join_dims ::
  "(string \<times> real list) list \<Rightarrow> (string \<times> real list) list \<Rightarrow> (string \<times> real list) list" where
  "join_dims ds ms =
     map (\<lambda>(name, labels).
            case map_of ms name of
              None \<Rightarrow> (name, labels)
            | Some labels' \<Rightarrow> (name, filter (\<lambda>l. l \<in> set labels') labels)) ds
     @ filter (\<lambda>(name, labels). name \<notin> set (map fst ds)) ms"

text \<open>The labels of the named dimensions in a coordinate given as (dimension, label) pairs.\<close>

fun pick :: "(string \<times> real) list \<Rightarrow> string list \<Rightarrow> real list option" where
  "pick env [] = Some []"
| "pick env (name # names) =
     (case map_of env name of
        None \<Rightarrow> None
      | Some l \<Rightarrow> map_option ((#) l) (pick env names))"

definition masked_cell :: "raster \<Rightarrow> raster \<Rightarrow> string list \<Rightarrow> real list \<Rightarrow> cell" where
  "masked_cell dem bitmask names k =
     (case cell_at dem (take (length (dims dem)) k) of
        None \<Rightarrow> NaN
      | Some c \<Rightarrow>
          (case pick (zip names k) (map fst (dims bitmask)) of
             None \<Rightarrow> NaN
           | Some km \<Rightarrow>
               (case cell_at bitmask km of
                  None \<Rightarrow> NaN
                | Some m \<Rightarrow> if m = Num 0 then c else NaN)))"

definition where_mask_zero :: "raster \<Rightarrow> raster \<Rightarrow> raster" where
  "where_mask_zero dem bitmask =
     (let joined = join_dims (dims dem) (dims bitmask)
      in dem\<lparr>dims := joined,
              cells := map (masked_cell dem bitmask (map fst joined)) (grid joined)\<rparr>)"

text \<open>\<^verbatim>\<open>dem.squeeze(drop=True)\<close> drops every dimension of size one, with its coordinate; the
  cells and their order stay.\<close>

definition squeeze :: "raster \<Rightarrow> raster" where
  "squeeze dem = dem\<lparr>dims := filter (\<lambda>(name, labels). length labels \<noteq> 1) (dims dem)\<rparr>"

text \<open>\<^verbatim>\<open>if type(bounds) == Polygon: bounds = bounds.bounds\<close>.\<close>

definition sanitise_bounds :: "world \<Rightarrow> bounds_arg \<Rightarrow> bounds" where
  "sanitise_bounds w b = (case b of BoundsTuple t \<Rightarrow> t | BoundsPolygon p \<Rightarrow> polygon_bounds w p)"

subsection \<open>\<^verbatim>\<open>from_fpath\<close>\<close>

definition from_fpath :: "world \<Rightarrow> string \<Rightarrow> bounds_arg option \<Rightarrow> string option \<Rightarrow> raster io" where
  "from_fpath w dem_fpath bounds bitmask_fpath =
     bnd (open_raster w dem_fpath) (\<lambda>dem.
     bnd (case map_option (sanitise_bounds w) bounds of
            Some b \<Rightarrow> bnd (ext (clip w dem b)) (\<lambda>dem. ret (dem, b))
          | None \<Rightarrow> ret (dem, rio_bounds w dem)) (\<lambda>(dem, bounds).
     let dem = where_gt dem NODATA in
     bnd (case bitmask_fpath of
            None \<Rightarrow> ret dem
          | Some fp \<Rightarrow>
              bnd (open_raster w fp) (\<lambda>bitmask.
              bnd (ext (clip w bitmask bounds)) (\<lambda>bitmask.
              ret (where_mask_zero dem bitmask)))) (\<lambda>dem.
     ret (squeeze dem))))"

subsection \<open>\<^verbatim>\<open>preview\<close> and \<^verbatim>\<open>from_search\<close>\<close>

text \<open>\<^verbatim>\<open>"http://" + s3url.split("/external/")[1]\<close>, after the \<^verbatim>\<open>try\<close> / \<^verbatim>\<open>except\<close> that reads
  \<^verbatim>\<open>row.s3url.values[0]\<close> and falls back to \<^verbatim>\<open>row.s3url\<close>. For a frame without rows the fallback
  is the empty column, which has no \<^verbatim>\<open>split\<close>.\<close>

definition external_part :: "string \<Rightarrow> error + string" where
  "external_part s3url =
     (case split_str s3url ''/external/'' of
        a # b # rest \<Rightarrow> Inr (''http://'' @ b)
      | _ \<Rightarrow> Inl (IndexError ''list index out of range''))"

definition json_url :: "search_row \<Rightarrow> error + string" where
  "json_url row =
     (case row of
        Frame [] \<Rightarrow> Inl (AttributeError ''Series object has no attribute split'')
      | Frame (s3url # rest) \<Rightarrow> external_part s3url
      | Row s3url \<Rightarrow> external_part s3url)"

definition preview :: "world \<Rightarrow> search_row \<Rightarrow> bounds_arg option \<Rightarrow> raster io" where
  "preview w row bounds =
     bnd (pure (json_url row)) (\<lambda>url.
     let hillshade_10m_url = replace url ''.json'' ''_dem_10m_shade_masked.tif'' in
     bnd (from_fpath w hillshade_10m_url bounds None) (\<lambda>p.
     ret (where_gt p 0)))"

definition from_search :: "world \<Rightarrow> search_row \<Rightarrow> bounds_arg option \<Rightarrow> bool \<Rightarrow> raster io" where
  "from_search w row bounds bitmask =
     bnd (pure (json_url row)) (\<lambda>url.
     let dem_url = replace url ''.json'' ''_dem.tif'';
         bitmask_url = (if bitmask then Some (replace url ''.json'' ''_bitmask.tif'') else None)
     in from_fpath w dem_url bounds bitmask_url)"

subsection \<open>\<^verbatim>\<open>from_id\<close>\<close>

definition browser_prefix :: string where
  "browser_prefix =
     ''https://polargeospatialcenter.github.io/stac-browser/#/external/pgc-opendata-dems.s3.us-west-2.amazonaws.com''"

text \<open>\<open>bitmask\<close> and \<open>preview\<close> are optional booleans compared with \<^verbatim>\<open>True\<close>; \<open>bucket\<close> and
  \<open>version\<close> are strings.\<close>

definition from_id ::
  "world \<Rightarrow> string \<Rightarrow> string \<Rightarrow> string \<Rightarrow> bounds_arg option \<Rightarrow> bool option \<Rightarrow> string \<Rightarrow> string
     \<Rightarrow> bool option \<Rightarrow> from_id_result io" where
  "from_id w dataset geocell dem_id bounds bitmask bucket version prev =
     (let dataset = lower dataset;
          geocell = lower geocell
      in if prev = Some True then
           ret (PreviewPath
             (path_join browser_prefix
                [dataset, ''strips'', version, ''2m'', geocell, dem_id @ ''.json'']))
         else
           let dem_fpath =
                 path_join bucket [dataset, ''strips'', version, ''2m'', geocell, dem_id @ ''_dem.tif''];
               bitmask_fpath =
                 (if bitmask = Some True
                  then Some (path_join bucket
                         [dataset, ''strips'', version, ''2m'', geocell, dem_id @ ''_bitmask.tif''])
                  else None)
           in bnd (from_fpath w dem_fpath bounds bitmask_fpath) (\<lambda>dem. ret (Strip dem)))"

subsection \<open>\<^verbatim>\<open>_get_index_fpath\<close> and \<^verbatim>\<open>_aws_link\<close>\<close>

definition config_msg :: string where
  "config_msg = ''Cannot retrive internal index filepath for specified dataset and version.''"

definition get_index_fpath :: "string \<Rightarrow> string \<Rightarrow> error + resource" where
  "get_index_fpath dataset version =
     (if dataset = ''arcticdem'' \<and> version = ''v3.0'' then
        Inr (PackageFile ''pdemtools.mosaic_index'' ARCTICDEM_V3_INDEX_FNAME)
      else if dataset = ''arcticdem'' \<and> version = ''v4.1'' then
        Inr (PackageFile ''pdemtools.mosaic_index'' ARCTICDEM_V4_INDEX_FNAME)
      else if dataset = ''rema'' \<and> version = ''v2.0'' then
        Inr (PackageFile ''pdemtools.mosaic_index'' REMA_V2_INDEX_FNAME)
      else Inl (ValueError config_msg))"

definition aws_link :: "tile_record \<Rightarrow> string \<Rightarrow> string \<Rightarrow> string \<Rightarrow> string \<Rightarrow> error + string" where
  "aws_link row dataset version resolution prefix =
     (let suffix =
            (if dataset = ''arcticdem'' \<and> version = ''v3.0''
             then ''_'' @ resolution @ ''_'' @ version @ ''_reg_dem.tif''
             else ''_'' @ resolution @ ''_'' @ version @ ''_dem.tif'')
      in if resolution = ''2m'' then
           Inr (path_join prefix
                  [dataset, ''mosaics'', version, resolution, supertile row, tile row @ suffix])
         else if resolution \<in> set [''10m'', ''32m''] then
           Inr (path_join prefix
                  [dataset, ''mosaics'', version, resolution, supertile row, supertile row @ suffix])
         else Inl (ValueError (''Input `resolution` must be one of ''
                                 @ str_list [''2m'', ''10m'', ''32m''])))"

subsection \<open>\<^verbatim>\<open>mosaic\<close>\<close>

text \<open>The messages of the three checks. The first formats \<^verbatim>\<open>{VERSIONS.keys}\<close>, the bound
  method itself, not the keys it would return.\<close>

definition keys_method_repr :: "world \<Rightarrow> string" where
  "keys_method_repr w = ''<built-in method keys of dict object at '' @ hex (versions_id w) @ ''>''"

definition dataset_msg :: "world \<Rightarrow> string \<Rightarrow> string" where
  "dataset_msg w dataset =
     ''Dataset must be one of '' @ keys_method_repr w @ ''. Currently `'' @ dataset @ ''`.''"

definition version_msg :: "string \<Rightarrow> string list \<Rightarrow> string \<Rightarrow> string" where
  "version_msg dataset versions version =
     ''Version of '' @ dataset @ '' must be one of '' @ str_list versions
       @ ''. Currently `'' @ version @ ''`''"

definition resolution_msg :: "string \<Rightarrow> string" where
  "resolution_msg resolution =
     ''Resolution must be one of '' @ str_list VALID_MOSAIC_RES
       @ ''. Currently `'' @ resolution @ ''`''"

text \<open>The message is not an f-string: the braces are printed as they are.\<close>

definition nodata_msg :: string where
  "nodata_msg = ''No {dataset} mosaic tiles found to intersect with bounds {aoi}''"

text \<open>The index layer for a dataset and version (the first \<^verbatim>\<open>if\<close> / \<^verbatim>\<open>elif\<close> chain).\<close>

definition index_layer :: "string \<Rightarrow> string \<Rightarrow> error + string" where
  "index_layer dataset version =
     (if dataset = ''arcticdem'' \<and> version = ''v3.0'' then Inr ARCTICDEM_V3_INDEX_2M_LAYER_NAME
      else if dataset = ''arcticdem'' \<and> version = ''v4.1'' then Inr ARCTICDEM_V4_INDEX_2M_LAYER_NAME
      else if dataset = ''rema'' \<and> version = ''v2.0'' then Inr REMA_V2_INDEX_2M_LAYER_NAME
      else Inl (ValueError config_msg))"

text \<open>The loop over \<^verbatim>\<open>tiles.iterrows()\<close> that collects one path per row.\<close>

fun tile_fpaths :: "tile_record list \<Rightarrow> string \<Rightarrow> string \<Rightarrow> string \<Rightarrow> error + string list" where
  "tile_fpaths [] dataset version resolution = Inr []"
| "tile_fpaths (row # rows) dataset version resolution =
     (case aws_link row dataset version resolution PREFIX of
        Inl e \<Rightarrow> Inl e
      | Inr fpath \<Rightarrow>
          (case tile_fpaths rows dataset version resolution of
             Inl e \<Rightarrow> Inl e
           | Inr fpaths \<Rightarrow> Inr (fpath # fpaths)))"

text \<open>\<^verbatim>\<open>list(set(fpaths))\<close>: the distinct paths, in the order the set iterates them.\<close>

definition list_of_set :: "world \<Rightarrow> string list \<Rightarrow> string list" where
  "list_of_set w fpaths = sort_key (set_key w) (remdups fpaths)"

text \<open>\<^verbatim>\<open>rxr.open_rasterio(fpath).rio.clip_box(*bounds)\<close>: the file is opened before the
  arguments are unpacked, and unpacking \<^verbatim>\<open>None\<close> is a \<^verbatim>\<open>TypeError\<close>.\<close>

definition open_clip_box :: "world \<Rightarrow> bounds option \<Rightarrow> string \<Rightarrow> raster io" where
  "open_clip_box w bounds fpath =
     bnd (open_raster w fpath) (\<lambda>dem.
     case bounds of
       None \<Rightarrow> raise (TypeError ''argument after * must be an iterable, not NoneType'')
     | Some b \<Rightarrow> ext (clip_box w dem b))"

text \<open>The loop that loads the rasters.\<close>

fun load_dems :: "world \<Rightarrow> bounds option \<Rightarrow> string list \<Rightarrow> raster list io" where
  "load_dems w bounds [] = ret []"
| "load_dems w bounds (fpath # fpaths) =
     bnd (open_clip_box w bounds fpath) (\<lambda>dem.
     bnd (load_dems w bounds fpaths) (\<lambda>dems.
     ret (dem # dems)))"

text \<open>\<^verbatim>\<open>if type(resolution) == int: resolution = f"{resolution}m"\<close>.\<close>

definition resolution_str :: "res_arg \<Rightarrow> string" where
  "resolution_str resolution = (case resolution of ResInt n \<Rightarrow> str_int n @ ''m'' | ResStr s \<Rightarrow> s)"

definition mosaic ::
  "world \<Rightarrow> string \<Rightarrow> res_arg \<Rightarrow> bounds_arg option \<Rightarrow> string option \<Rightarrow> raster io" where
  "mosaic w dataset resolution bounds version =
     (let dataset = lower dataset in
      case map_of VERSIONS dataset of
        None \<Rightarrow> raise (ValueError (dataset_msg w dataset))
      | Some versions \<Rightarrow>
     bnd (case version of
            None \<Rightarrow> ret (last versions)
          | Some v \<Rightarrow>
              if v \<notin> set versions then raise (ValueError (version_msg dataset versions v))
              else ret v) (\<lambda>version.
     let resolution = resolution_str resolution in
     if resolution \<notin> set VALID_MOSAIC_RES then raise (ValueError (resolution_msg resolution))
     else
     let bounds = map_option (sanitise_bounds w) bounds in
     bnd (pure (index_layer dataset version)) (\<lambda>layer.
     bnd (pure (get_index_fpath dataset version)) (\<lambda>index_fpath.
     bnd (read_file w index_fpath layer bounds) (\<lambda>tiles.
     if length tiles < 1 then raise (ValueError nodata_msg)
     else
     bnd (pure (tile_fpaths tiles dataset version resolution)) (\<lambda>fpaths.
     let fpaths = list_of_set w fpaths in
     bnd (load_dems w bounds fpaths) (\<lambda>dems.
     bnd (if length fpaths = 1
          then bnd (open_clip_box w bounds (fpaths ! 0)) (\<lambda>dem. ret ())
          else ret ()) (\<lambda>u.
     bnd (case dems of
            [] \<Rightarrow> raise (IndexError ''list index out of range'')
          | [dem] \<Rightarrow> ret dem
          | dem # others \<Rightarrow> ext (merge_arrays w dems)) (\<lambda>dem.
     ret (where_gt dem NODATA))))))))))"

subsection \<open>Auxiliary notions for the statements\<close>

text \<open>The stored raster of a strip, the one \<^verbatim>\<open>from_fpath\<close> filters: the opened file, clipped
  when bounds are given.\<close>

definition stored_strip :: "world \<Rightarrow> string \<Rightarrow> bounds_arg option \<Rightarrow> raster option" where
  "stored_strip w fpath bounds =
     (case open_rasterio w fpath of
        Inl e \<Rightarrow> None
      | Inr d0 \<Rightarrow>
          (case bounds of
             None \<Rightarrow> Some d0
           | Some b \<Rightarrow>
               (case clip w d0 (sanitise_bounds w b) of
                  Inl e \<Rightarrow> None
                | Inr d \<Rightarrow> Some d)))"

text \<open>The bounds the bitmask is clipped to: the given ones, or those of the strip.\<close>

definition effective_bounds :: "world \<Rightarrow> bounds_arg option \<Rightarrow> raster \<Rightarrow> bounds" where
  "effective_bounds w bounds d =
     (case bounds of None \<Rightarrow> rio_bounds w d | Some b \<Rightarrow> sanitise_bounds w b)"

text \<open>The stored raster of a strip after the sentinel filter and, when a bitmask path is
  given, after the mask of the bitmask file clipped to the same bounds; not yet squeezed.\<close>

definition filtered_strip ::
  "world \<Rightarrow> string \<Rightarrow> bounds_arg option \<Rightarrow> string option \<Rightarrow> raster option" where
  "filtered_strip w fpath bounds bitmask_fpath =
     (case stored_strip w fpath bounds of
        None \<Rightarrow> None
      | Some d \<Rightarrow>
          (case bitmask_fpath of
             None \<Rightarrow> Some (where_gt d NODATA)
           | Some fp \<Rightarrow>
               (case stored_strip w fp (Some (BoundsTuple (effective_bounds w bounds d))) of
                  None \<Rightarrow> None
                | Some m \<Rightarrow> Some (where_mask_zero (where_gt d NODATA) m))))"

text \<open>The rasters of a list of tile paths, each opened and clipped to the bounds.\<close>

fun clip_boxes :: "world \<Rightarrow> bounds \<Rightarrow> string list \<Rightarrow> raster list option" where
  "clip_boxes w b [] = Some []"
| "clip_boxes w b (fpath # fpaths) =
     (case open_rasterio w fpath of
        Inl e \<Rightarrow> None
      | Inr d0 \<Rightarrow>
          (case clip_box w d0 b of
             Inl e \<Rightarrow> None
           | Inr d \<Rightarrow> map_option ((#) d) (clip_boxes w b fpaths)))"

text \<open>The stored raster of a mosaic: the one clipped tile raster, or the merge of several.\<close>

definition merged_tiles :: "world \<Rightarrow> bounds \<Rightarrow> string list \<Rightarrow> raster option" where
  "merged_tiles w b fpaths =
     (case clip_boxes w b fpaths of
        None \<Rightarrow> None
      | Some [] \<Rightarrow> None
      | Some [x] \<Rightarrow> Some x
      | Some (x # y # rest) \<Rightarrow>
          (case merge_arrays w (x # y # rest) of Inl e \<Rightarrow> None | Inr d \<Rightarrow> Some d))"

text \<open>The deduplicated paths of the tiles that meet the bounds, for a supported dataset,
  version and resolution.\<close>

definition mosaic_fpaths ::
  "world \<Rightarrow> string \<Rightarrow> res_arg \<Rightarrow> bounds \<Rightarrow> string option \<Rightarrow> string list option" where
  "mosaic_fpaths w dataset resolution b version =
     (case map_of VERSIONS (lower dataset) of
        None \<Rightarrow> None
      | Some versions \<Rightarrow>
          (let v = (case version of None \<Rightarrow> last versions | Some x \<Rightarrow> x)
           in case index_layer (lower dataset) v of
                Inl e \<Rightarrow> None
              | Inr layer \<Rightarrow>
                  (case get_index_fpath (lower dataset) v of
                     Inl e \<Rightarrow> None
                   | Inr index_fpath \<Rightarrow>
                       (case tile_fpaths (query_tiles w index_fpath layer (Some b))
                               (lower dataset) v (resolution_str resolution) of
                          Inl e \<Rightarrow> None
                        | Inr fpaths \<Rightarrow> Some (list_of_set w fpaths)))))"

text \<open>The stored raster of the mosaic that a call of \<^verbatim>\<open>mosaic\<close> loads.\<close>

definition stored_mosaic ::
  "world \<Rightarrow> string \<Rightarrow> res_arg \<Rightarrow> bounds_arg option \<Rightarrow> string option \<Rightarrow> raster option" where
  "stored_mosaic w dataset resolution bounds version =
     (case bounds of
        None \<Rightarrow> None
      | Some ba \<Rightarrow>
          (case mosaic_fpaths w dataset resolution (sanitise_bounds w ba) version of
             None \<Rightarrow> None
           | Some fpaths \<Rightarrow> merged_tiles w (sanitise_bounds w ba) fpaths))"

text \<open>\<open>sentinel_cells_missing d u\<close>: at every coordinate of \<open>u\<close> where the stored raster \<open>d\<close>
  holds the sentinel, \<open>u\<close> holds the missing-data marker. A coordinate of \<open>u\<close> begins with the
  labels of the dimensions of \<open>d\<close>.\<close>

definition sentinel_cells_missing :: "raster \<Rightarrow> raster \<Rightarrow> bool" where
  "sentinel_cells_missing d u =
     (\<forall>k \<in> set (grid (dims u)).
        cell_at d (take (length (dims d)) k) = Some (Num NODATA) \<longrightarrow> cell_at u k = Some NaN)"

subsection \<open>The path layout as the specification words it\<close>

text \<open>The specification gives the mosaic tile path as the template
  \<^verbatim>\<open>{root}/{dataset}/mosaics/{version}/{resolution}/{supertile}/{identifier}{suffix}\<close>.\<close>

definition spec_mosaic_tile_path ::
  "string \<Rightarrow> string \<Rightarrow> string \<Rightarrow> string \<Rightarrow> string \<Rightarrow> string \<Rightarrow> string \<Rightarrow> string" where
  "spec_mosaic_tile_path prefix dataset version resolution supertile_code identifier suffix =
     prefix @ ''/'' @ dataset @ ''/mosaics/'' @ version @ ''/'' @ resolution @ ''/''
       @ supertile_code @ ''/'' @ identifier @ suffix"

definition spec_identifier :: "tile_record \<Rightarrow> string \<Rightarrow> string" where
  "spec_identifier row resolution = (if resolution = ''2m'' then tile row else supertile row)"

definition spec_suffix :: "string \<Rightarrow> string \<Rightarrow> string \<Rightarrow> string" where
  "spec_suffix dataset version resolution =
     ''_'' @ resolution @ ''_'' @ version
       @ (if dataset = ''arcticdem'' \<and> version = ''v3.0'' then ''_reg'' else [])
       @ ''_dem.tif''"

text \<open>A path component that \<^verbatim>\<open>os.path.join\<close> joins with exactly one separator on each side.\<close>

definition plain_component :: "string \<Rightarrow> bool" where
  "plain_component s = (s \<noteq> [] \<and> \<not> startswith_sep s \<and> \<not> endswith_sep s)"

subsection \<open>A small world to run the functions in\<close>

text \<open>One raster with a band dimension and a sentinel cell, served for every path but that
  of the bitmask; an index whose two 2 m tiles lie in the same supertile; clipping that keeps
  the raster as it is. The bitmask lies one row higher than the strip and shares its upper
  row only.\<close>

definition example_dem :: raster where
  "example_dem =
     \<lparr>dims = [(''band'', [1]), (''y'', [30, 10]), (''x'', [10, 30])],
      cells = [Num 120, Num (- 9999), NaN, Num 7]\<rparr>"

definition example_bitmask :: raster where
  "example_bitmask =
     \<lparr>dims = [(''band'', [1]), (''y'', [50, 30]), (''x'', [10, 30])],
      cells = [Num 1, Num 1, Num 0, Num 0]\<rparr>"

definition example_tiles :: "tile_record list" where
  "example_tiles =
     [\<lparr>tile = ''14_51_1_1'', supertile = ''14_51'', geometry = Polygon [(0, 0), (1, 0), (1, 1), (0, 1)]\<rparr>,
      \<lparr>tile = ''14_51_1_2'', supertile = ''14_51'', geometry = Polygon [(1, 0), (2, 0), (2, 1), (1, 1)]\<rparr>]"

definition example_world :: world where
  "example_world =
     \<lparr>open_rasterio = (\<lambda>fpath. if fpath = ''bitmask.tif'' then Inr example_bitmask else Inr example_dem),
      clip = (\<lambda>dem b. Inr dem),
      clip_box = (\<lambda>dem b. Inr dem),
      rio_bounds = (\<lambda>dem. (0, 0, 40, 40)),
      merge_arrays = (\<lambda>dems. case dems of [] \<Rightarrow> Inl ''no rasters'' | dem # rest \<Rightarrow> Inr dem),
      polygon_bounds = (\<lambda>p. (0, 0, 2, 2)),
      index_rows = (\<lambda>fpath layer. example_tiles),
      intersects = (\<lambda>g b. True),
      set_key = length,
      versions_id = 139888629063232\<rparr>"

definition example_bounds :: "bounds_arg option" where
  "example_bounds = Some (BoundsTuple (0, 0, 2, 1))"

text \<open>The same world with bounds that no tile footprint meets.\<close>

definition empty_world :: world where
  "empty_world = example_world\<lparr>intersects := (\<lambda>g b. False)\<rparr>"

section \<open>Properties\<close>

subsection \<open>Sequencing, and the string functions at the literals the module uses\<close>

lemma bnd_ret [simp]: "bnd (ret x) f = f x"
  by (simp add: bnd_def ret_def)

lemma bnd_raise [simp]: "bnd (raise e) f = raise e"
  by (simp add: bnd_def raise_def)

lemma bnd_pure_Inr [simp]: "bnd (pure (Inr x)) f = f x"
  by (simp add: bnd_def pure_def)

lemma bnd_pure_Inl [simp]: "bnd (pure (Inl e)) f = raise e"
  by (simp add: bnd_def pure_def raise_def)

lemma str_int_2: "str_int 2 = ''2''"
  by (simp add: str_int_def digits.simps digit_char_def)

lemma str_int_10: "str_int 10 = ''10''"
  by (simp add: str_int_def digits.simps digit_char_def)

lemma str_int_32: "str_int 32 = ''32''"
  by (simp add: str_int_def digits.simps digit_char_def)

lemma lower_arcticdem: "lower ''arcticdem'' = ''arcticdem''"
  by code_simp

lemma example_tile_fpaths: "tile_fpaths example_tiles ''arcticdem'' ''v4.1'' ''10m'' =
   Inr [''https://pgc-opendata-dems.s3.us-west-2.amazonaws.com/arcticdem/mosaics/v4.1/10m/14_51/14_51_10m_v4.1_dem.tif'',
   ''https://pgc-opendata-dems.s3.us-west-2.amazonaws.com/arcticdem/mosaics/v4.1/10m/14_51/14_51_10m_v4.1_dem.tif'']"
  by (simp add: example_tiles_def aws_link_def path_join_def join_step_def startswith_sep_def
        endswith_sep_def PREFIX_def)

lemma lower_char_idem: "lower_char (lower_char c) = lower_char c"
  by (cases c) (simp add: lower_char_def Let_def)

lemma lower_idem: "lower (lower s) = lower s"
  by (simp add: lower_def lower_char_idem)

lemma lower_ex: "lower ''N70W051'' = ''n70w051''"
  by code_simp

lemma lower_REMA: "lower ''REMA'' = ''rema''"
  by code_simp

lemma lower_ArcticDEM: "lower ''ArcticDEM'' = ''arcticdem''"
  by code_simp

lemma versions_cases:
  "map_of VERSIONS d = Some vs \<Longrightarrow>
     (d = ''arcticdem'' \<and> vs = [''v3.0'', ''v4.1'']) \<or> (d = ''rema'' \<and> vs = [''v2.0''])"
  by (auto simp: VERSIONS_def split: if_splits)

lemma validated_lookup:
  assumes "map_of VERSIONS d = Some vs" and "v \<in> set vs"
  shows "\<exists>layer fname. index_layer d v = Inr layer
           \<and> get_index_fpath d v = Inr (PackageFile ''pdemtools.mosaic_index'' fname)"
  using versions_cases [OF assms(1)] assms(2)
  by (auto simp: index_layer_def get_index_fpath_def)

lemma tile_fpaths_error:
  "tile_fpaths rows d v r = Inl e \<Longrightarrow> e \<noteq> ValueError config_msg"
  by (induction rows arbitrary: e)
     (auto simp: aws_link_def Let_def config_msg_def split: sum.splits if_splits)

lemma open_clip_box_error:
  "open_clip_box w b p evs = (Inl e, evs') \<Longrightarrow> e \<noteq> ValueError m"
  by (auto simp: open_clip_box_def bnd_def open_raster_def raise_def ext_def pure_def
           split: sum.splits option.splits)

lemma load_dems_error:
  "load_dems w b ps evs = (Inl e, evs') \<Longrightarrow> e \<noteq> ValueError m"
  by (induction ps arbitrary: evs e evs')
     (auto simp: ret_def bnd_def dest: open_clip_box_error split: sum.splits prod.splits)

lemma last_versions: "map_of VERSIONS d = Some vs \<Longrightarrow> last vs \<in> set vs"
  by (drule versions_cases) auto

lemma where_gt_no_sentinel: "NODATA \<le> x \<Longrightarrow> Num NODATA \<notin> set (cells (where_gt d x))"
  by (auto simp: where_gt_def)

lemma where_gt_sentinel_nth:
  "i < length (cells d) \<Longrightarrow> cells d ! i = Num NODATA \<Longrightarrow> cells (where_gt d NODATA) ! i = NaN"
  by (simp add: where_gt_def)

lemma squeeze_cells: "cells (squeeze d) = cells d"
  by (simp add: squeeze_def)

lemma where_gt_length: "length (cells (where_gt d x)) = length (cells d)"
  by (simp add: where_gt_def)

subsection \<open>Rasters: coordinates, the sentinel filter, the bitmask\<close>

lemma grid_length: "k \<in> set (grid ds) \<Longrightarrow> length k = length ds"
  by (induction ds arbitrary: k rule: grid.induct) auto

lemma dims_where_gt: "dims (where_gt d x) = dims d"
  by (simp add: where_gt_def)

lemma cell_at_where_gt:
  "cell_at (where_gt d x) k = map_option (\<lambda>c. if gt_cell c x then c else NaN) (cell_at d k)"
  by (simp add: cell_at_def where_gt_def zip_map2 map_of_map)

lemma cell_at_in_cells: "cell_at d k = Some c \<Longrightarrow> c \<in> set (cells d)"
  by (auto simp: cell_at_def dest!: map_of_SomeD set_zip_rightD)

lemma dims_where_mask_zero: "dims (where_mask_zero dem m) = join_dims (dims dem) (dims m)"
  by (simp add: where_mask_zero_def Let_def)

lemma cells_where_mask_zero:
  "cells (where_mask_zero dem m)
     = map (masked_cell dem m (map fst (join_dims (dims dem) (dims m))))
         (grid (join_dims (dims dem) (dims m)))"
  by (simp add: where_mask_zero_def Let_def)

lemma cell_at_where_mask_zero:
  "k \<in> set (grid (join_dims (dims dem) (dims m))) \<Longrightarrow>
     cell_at (where_mask_zero dem m) k
       = Some (masked_cell dem m (map fst (join_dims (dims dem) (dims m))) k)"
  by (simp add: cell_at_def dims_where_mask_zero cells_where_mask_zero map_of_zip_map)

lemma masked_cell_NaN:
  "cell_at dem (take (length (dims dem)) k) = Some NaN \<Longrightarrow> masked_cell dem m names k = NaN"
  by (simp add: masked_cell_def split: option.splits)

lemma masked_cell_cases:
  "masked_cell dem m names k = NaN \<or> masked_cell dem m names k \<in> set (cells dem)"
  by (auto simp: masked_cell_def dest: cell_at_in_cells split: option.splits)

lemma where_mask_zero_no_sentinel:
  assumes "Num NODATA \<notin> set (cells dem)"
  shows "Num NODATA \<notin> set (cells (where_mask_zero dem m))"
proof
  assume "Num NODATA \<in> set (cells (where_mask_zero dem m))"
  then obtain k where
    k: "masked_cell dem m (map fst (join_dims (dims dem) (dims m))) k = Num NODATA"
    by (auto simp: cells_where_mask_zero)
  from masked_cell_cases [of dem m "map fst (join_dims (dims dem) (dims m))" k] assms
  show False
    by (simp add: k)
qed

lemma sentinel_where_gt: "sentinel_cells_missing d (where_gt d NODATA)"
  by (auto simp: sentinel_cells_missing_def dims_where_gt cell_at_where_gt grid_length)

lemma sentinel_where_mask_zero:
  "sentinel_cells_missing d (where_mask_zero (where_gt d NODATA) m)"
  by (auto simp: sentinel_cells_missing_def dims_where_mask_zero dims_where_gt
        cell_at_where_mask_zero cell_at_where_gt intro!: masked_cell_NaN)

lemma sentinel_then_where_gt:
  "sentinel_cells_missing d u \<Longrightarrow> sentinel_cells_missing d (where_gt u x)"
  by (auto simp: sentinel_cells_missing_def dims_where_gt cell_at_where_gt)

lemma squeeze_where_gt: "where_gt (squeeze u) x = squeeze (where_gt u x)"
  by (simp add: squeeze_def where_gt_def)

lemma from_fpath_Inr:
  assumes "from_fpath w p b m evs = (Inr r, evs')"
  shows "\<exists>u. filtered_strip w p b m = Some u \<and> r = squeeze u"
  using assms
  by (auto simp: from_fpath_def filtered_strip_def stored_strip_def effective_bounds_def
        sanitise_bounds_def bnd_def ret_def ext_def pure_def open_raster_def Let_def
      split: sum.splits option.splits prod.splits)

lemma filtered_strip_props:
  assumes "filtered_strip w p b m = Some u"
  shows "\<exists>d. stored_strip w p b = Some d \<and> sentinel_cells_missing d u
           \<and> Num NODATA \<notin> set (cells u)"
proof -
  from assms obtain d where d: "stored_strip w p b = Some d" and
    u: "u = where_gt d NODATA \<or> (\<exists>bm. u = where_mask_zero (where_gt d NODATA) bm)"
    by (auto simp: filtered_strip_def split: option.splits)
  have ng: "Num NODATA \<notin> set (cells (where_gt d NODATA))"
    by (rule where_gt_no_sentinel) simp
  from u have "sentinel_cells_missing d u \<and> Num NODATA \<notin> set (cells u)"
    using ng sentinel_where_gt sentinel_where_mask_zero where_mask_zero_no_sentinel by auto
  with d show ?thesis by blast
qed

lemma load_dems_Some:
  "load_dems w (Some b) fpaths evs = (Inr dems, evs') \<Longrightarrow> clip_boxes w b fpaths = Some dems"
  by (induction fpaths arbitrary: evs dems)
     (auto simp: ret_def bnd_def open_clip_box_def open_raster_def ext_def pure_def
           split: sum.splits prod.splits)

lemma load_dems_None:
  "load_dems w None fpaths evs = (Inr dems, evs') \<Longrightarrow> dems = []"
  by (cases fpaths)
     (auto simp: ret_def bnd_def open_clip_box_def open_raster_def raise_def
           split: sum.splits prod.splits)

lemma mosaic_Inr:
  assumes "mosaic w dataset resolution bounds version evs = (Inr r, evs')"
  shows "\<exists>d. stored_mosaic w dataset resolution bounds version = Some d \<and> r = where_gt d NODATA"
proof (cases bounds)
  case None
  with assms show ?thesis
    by (auto simp: mosaic_def Let_def bnd_def raise_def ret_def pure_def read_file_def
          dest!: load_dems_None
          split: option.splits sum.splits prod.splits if_splits list.splits)
next
  case (Some ba)
  with assms show ?thesis
    by (auto simp: mosaic_def Let_def bnd_def raise_def ret_def pure_def ext_def read_file_def
          stored_mosaic_def mosaic_fpaths_def merged_tiles_def
          dest!: load_dems_Some
          split: option.splits sum.splits prod.splits if_splits list.splits)
qed

lemma preview_Inr:
  assumes "preview w row bounds evs = (Inr r, evs')"
  shows "\<exists>url u. json_url row = Inr url
           \<and> filtered_strip w (replace url ''.json'' ''_dem_10m_shade_masked.tif'') bounds None
               = Some u
           \<and> r = squeeze (where_gt u 0)"
  using assms
  by (auto simp: preview_def bnd_def pure_def ret_def Let_def squeeze_where_gt
        dest!: from_fpath_Inr split: sum.splits prod.splits)

lemma from_search_Inr:
  assumes "from_search w row bounds bitmask evs = (Inr r, evs')"
  shows "\<exists>url u. json_url row = Inr url
           \<and> filtered_strip w (replace url ''.json'' ''_dem.tif'') bounds
                (if bitmask then Some (replace url ''.json'' ''_bitmask.tif'') else None) = Some u
           \<and> r = squeeze u"
  using assms
  by (auto simp: from_search_def bnd_def pure_def Let_def
        dest!: from_fpath_Inr split: sum.splits prod.splits)

lemma from_id_Inr:
  assumes "from_id w dataset geocell dem_id bounds bitmask bucket version prev evs
             = (Inr (Strip r), evs')"
  shows "\<exists>u. filtered_strip w
             (path_join bucket
                [lower dataset, ''strips'', version, ''2m'', lower geocell, dem_id @ ''_dem.tif''])
             bounds
             (if bitmask = Some True
              then Some (path_join bucket
                     [lower dataset, ''strips'', version, ''2m'', lower geocell,
                      dem_id @ ''_bitmask.tif''])
              else None) = Some u
           \<and> r = squeeze u"
  using assms
  by (auto simp: from_id_def bnd_def ret_def Let_def
        dest!: from_fpath_Inr split: sum.splits prod.splits if_splits)

lemma where_gt_zero_no_sentinel: "Num NODATA \<notin> set (cells (where_gt d 0))"
  by (rule where_gt_no_sentinel) (simp add: NODATA_def)

subsection \<open>The configuration error\<close>

lemma mosaic_never_config_error:
  "fst (mosaic w dataset resolution bounds version evs) \<noteq> Inl (ValueError config_msg)"
proof (cases "map_of VERSIONS (lower dataset)")
  case None
  then show ?thesis
    by (simp add: mosaic_def Let_def raise_def dataset_msg_def config_msg_def)
next
  case (Some vs)
  show ?thesis
  proof (cases "\<exists>v. version = Some v \<and> v \<notin> set vs")
    case True
    with Some show ?thesis
      by (auto simp: mosaic_def Let_def bnd_def raise_def version_msg_def config_msg_def)
  next
    case False
    define v where "v = (case version of None \<Rightarrow> last vs | Some x \<Rightarrow> x)"
    have vin: "v \<in> set vs"
      using False last_versions [OF Some] by (auto simp: v_def split: option.splits)
    from validated_lookup [OF Some vin] obtain layer fname where
      lay: "index_layer (lower dataset) v = Inr layer" and
      fp: "get_index_fpath (lower dataset) v = Inr (PackageFile ''pdemtools.mosaic_index'' fname)"
      by blast
    have ver: "(case version of None \<Rightarrow> ret (last vs)
          | Some x \<Rightarrow> if x \<notin> set vs
               then raise (ValueError (version_msg (lower dataset) vs x)) else ret x) = ret v"
      using False by (auto simp: v_def split: option.splits)
    show ?thesis
      unfolding mosaic_def Let_def
      apply (simp add: Some ver lay fp)
      apply (auto simp: bnd_def raise_def ret_def pure_def ext_def read_file_def
              resolution_msg_def nodata_msg_def config_msg_def
             dest: load_dems_error open_clip_box_error tile_fpaths_error
             split: sum.splits prod.splits if_splits list.splits)
      done
  qed
qed

subsection \<open>The three checks of \<^verbatim>\<open>mosaic\<close>\<close>

lemma mosaic_unknown_dataset:
  "map_of VERSIONS (lower dataset) = None \<Longrightarrow>
     mosaic w dataset resolution bounds version evs
       = (Inl (ValueError (dataset_msg w (lower dataset))), evs)"
  by (simp add: mosaic_def Let_def raise_def)

lemma mosaic_unknown_version:
  "map_of VERSIONS (lower dataset) = Some vs \<Longrightarrow> v \<notin> set vs \<Longrightarrow>
     mosaic w dataset resolution bounds (Some v) evs
       = (Inl (ValueError (version_msg (lower dataset) vs v)), evs)"
  by (simp add: mosaic_def Let_def bnd_def raise_def)

lemma mosaic_unknown_resolution:
  "map_of VERSIONS (lower dataset) = Some vs \<Longrightarrow>
   version = None \<or> (\<exists>v. version = Some v \<and> v \<in> set vs) \<Longrightarrow>
   resolution_str resolution \<notin> set VALID_MOSAIC_RES \<Longrightarrow>
     mosaic w dataset resolution bounds version evs
       = (Inl (ValueError (resolution_msg (resolution_str resolution))), evs)"
  by (auto simp: mosaic_def Let_def bnd_def ret_def raise_def)

lemma contains_self_prefix: "contains (ys @ zs) ys"
proof (cases "ys @ zs")
  case Nil
  then show ?thesis by simp
next
  case (Cons c cs)
  have "take (length ys) (ys @ zs) = ys" by simp
  then have "take (length ys) (c # cs) = ys" by (simp only: Cons)
  then show ?thesis by (simp add: Cons)
qed

lemma contains_append: "contains (xs @ ys @ zs) ys"
  by (induction xs) (auto simp: contains_self_prefix)

lemma version_msg_lists_versions: "contains (version_msg dataset vs v) (str_list vs)"
proof -
  have "version_msg dataset vs v
      = (''Version of '' @ dataset @ '' must be one of '') @ str_list vs
          @ (''. Currently `'' @ v @ ''`'')"
    by (simp add: version_msg_def)
  then show ?thesis
    by (simp only: contains_append)
qed

lemma resolution_msg_lists_resolutions:
  "contains (resolution_msg r) (str_list VALID_MOSAIC_RES)"
proof -
  have "resolution_msg r
      = ''Resolution must be one of '' @ str_list VALID_MOSAIC_RES @ (''. Currently `'' @ r @ ''`'')"
    by (simp add: resolution_msg_def)
  then show ?thesis
    by (simp only: contains_append)
qed

subsection \<open>Deduplication and the loading loop\<close>

lemma list_of_set_distinct: "distinct (list_of_set w fpaths)"
  by (simp add: list_of_set_def)

lemma list_of_set_same_paths: "set (list_of_set w fpaths) = set fpaths"
  by (simp add: list_of_set_def)

lemma open_clip_box_log: "snd (open_clip_box w b fpath evs) = evs @ [OpenRaster fpath]"
  by (simp add: open_clip_box_def bnd_def open_raster_def raise_def ext_def pure_def
        split: sum.splits option.splits)

lemma load_dems_log:
  "load_dems w b fpaths evs = (Inr dems, evs') \<Longrightarrow> evs' = evs @ map OpenRaster fpaths"
proof (induction fpaths arbitrary: evs dems)
  case Nil
  then show ?case by (simp add: ret_def)
next
  case (Cons fpath fpaths)
  from Cons.prems obtain dem rest where
    rest: "load_dems w b fpaths (snd (open_clip_box w b fpath evs)) = (Inr rest, evs')"
    by (auto simp: bnd_def ret_def split: sum.splits prod.splits)
  from Cons.IH [OF rest] show ?case
    by (simp add: open_clip_box_log)
qed

subsection \<open>Joining plain components\<close>

lemma join_step_plain:
  "path \<noteq> [] \<Longrightarrow> \<not> endswith_sep path \<Longrightarrow> \<not> startswith_sep b \<Longrightarrow>
     join_step path b = path @ ''/'' @ b"
  by (simp add: join_step_def)

lemma foldl_join_step_plain:
  "path \<noteq> [] \<Longrightarrow> \<not> endswith_sep path \<Longrightarrow> \<forall>b \<in> set bs. plain_component b \<Longrightarrow>
     foldl join_step path bs = path @ concat (map ((#) CHR ''/'') bs)
     \<and> \<not> endswith_sep (foldl join_step path bs)"
proof (induction bs arbitrary: path)
  case Nil
  then show ?case by simp
next
  case (Cons b bs)
  from Cons.prems have b: "b \<noteq> []" "\<not> startswith_sep b" "\<not> endswith_sep b"
    by (simp_all add: plain_component_def)
  from Cons.prems(1,2) b(2) have step: "join_step path b = path @ ''/'' @ b"
    by (rule join_step_plain)
  have ne: "path @ ''/'' @ b \<noteq> []" by simp
  have es: "\<not> endswith_sep (path @ ''/'' @ b)"
    using b by (simp add: endswith_sep_def)
  from Cons.prems(3) have rest: "\<forall>c \<in> set bs. plain_component c" by simp
  note ih = Cons.IH [OF ne es rest]
  have unfold: "foldl join_step path (b # bs) = foldl join_step (path @ ''/'' @ b) bs"
    by (simp add: step)
  from ih have e1: "foldl join_step (path @ ''/'' @ b) bs
      = (path @ ''/'' @ b) @ concat (map ((#) CHR ''/'') bs)"
    by (rule conjunct1)
  from ih have e2: "\<not> endswith_sep (foldl join_step (path @ ''/'' @ b) bs)"
    by (rule conjunct2)
  show ?case
  proof (rule conjI)
    show "foldl join_step path (b # bs) = path @ concat (map ((#) CHR ''/'') (b # bs))"
      unfolding unfold e1 by simp
    show "\<not> endswith_sep (foldl join_step path (b # bs))"
      unfolding unfold by (rule e2)
  qed
qed

lemma path_join_plain:
  assumes "path \<noteq> []" and "\<not> endswith_sep path" and "\<forall>b \<in> set bs. plain_component b"
    and "\<not> startswith_sep f"
  shows "path_join path (bs @ [f]) = path @ concat (map ((#) CHR ''/'') bs) @ ''/'' @ f"
proof -
  note both = foldl_join_step_plain [OF assms(1-3)]
  from both have eq: "foldl join_step path bs = path @ concat (map ((#) CHR ''/'') bs)"
    by (rule conjunct1)
  from both have es: "\<not> endswith_sep (foldl join_step path bs)"
    by (rule conjunct2)
  from assms(1) eq have ne: "foldl join_step path bs \<noteq> []" by simp
  from join_step_plain [OF ne es assms(4)] eq show ?thesis
    by (simp add: path_join_def)
qed

lemma valid_res_plain: "resolution \<in> set VALID_MOSAIC_RES \<Longrightarrow> plain_component resolution"
  by (auto simp: VALID_MOSAIC_RES_def plain_component_def startswith_sep_def endswith_sep_def)

lemma fname_not_startswith_sep:
  "\<not> startswith_sep ident \<Longrightarrow> \<not> startswith_sep (ident @ CHR ''_'' # rest)"
  by (cases ident) (simp_all add: startswith_sep_def)

subsection \<open>The example world, evaluated\<close>

lemma lower_rema: "lower ''rema'' = ''rema''"
  by code_simp

lemma lower_greenland: "lower ''greenland'' = ''greenland''"
  by code_simp

lemma hex_example: "hex 139888629063232 = ''0x7f3a5c0b1e40''"
  by (simp add: hex_def digits.simps digit_char_def)

lemma example_tiles_nonempty: "example_tiles \<noteq> []"
  by (simp add: example_tiles_def)

lemma mosaic_example:
  "mosaic example_world ''arcticdem'' (ResStr ''10m'') example_bounds None [] =
  (Inr \<lparr>dims = [(''band'', [1]), (''y'', [30, 10]), (''x'', [10, 30])], cells = [Num 120, NaN, NaN, Num 7]\<rparr>,
   [ReadIndex (PackageFile ''pdemtools.mosaic_index'' ''ArcticDEM_Mosaic_Index_v4_1_gpkg.gpkg'')
      ''ArcticDEM_Mosaic_Index_v4_1_2m'' (Some (0, 0, 2, 1)),
    OpenRaster ''https://pgc-opendata-dems.s3.us-west-2.amazonaws.com/arcticdem/mosaics/v4.1/10m/14_51/14_51_10m_v4.1_dem.tif'',
    OpenRaster ''https://pgc-opendata-dems.s3.us-west-2.amazonaws.com/arcticdem/mosaics/v4.1/10m/14_51/14_51_10m_v4.1_dem.tif''])"
  by (simp add: mosaic_def Let_def lower_arcticdem VERSIONS_def resolution_str_def
        VALID_MOSAIC_RES_def example_bounds_def sanitise_bounds_def index_layer_def
        get_index_fpath_def ARCTICDEM_V4_INDEX_2M_LAYER_NAME_def ARCTICDEM_V4_INDEX_FNAME_def
        bnd_def read_file_def query_tiles_def example_world_def example_tile_fpaths
        list_of_set_def open_clip_box_def open_raster_def ext_def pure_def ret_def
        where_gt_def example_dem_def NODATA_def example_tiles_nonempty)

lemma from_fpath_example:
  "from_fpath example_world ''dem.tif'' example_bounds None [] =
  (Inr \<lparr>dims = [(''y'', [30, 10]), (''x'', [10, 30])], cells = [Num 120, NaN, NaN, Num 7]\<rparr>,
   [OpenRaster ''dem.tif''])"
  by (simp add: from_fpath_def Let_def example_bounds_def sanitise_bounds_def
        bnd_def example_world_def open_raster_def ext_def pure_def ret_def
        where_gt_def squeeze_def example_dem_def NODATA_def)

lemma stored_strip_example: "stored_strip example_world ''dem.tif'' None = Some example_dem"
  by (simp add: stored_strip_def example_world_def)

lemma filtered_strip_example:
  "filtered_strip example_world ''dem.tif'' None (Some ''bitmask.tif'') =
     Some \<lparr>dims = [(''band'', [1]), (''y'', [30]), (''x'', [10, 30])], cells = [Num 120, NaN]\<rparr>"
  by (simp add: filtered_strip_def stored_strip_def effective_bounds_def sanitise_bounds_def
        example_world_def example_dem_def example_bitmask_def where_gt_def NODATA_def
        where_mask_zero_def Let_def join_dims_def masked_cell_def cell_at_def)

lemma from_fpath_bitmask_example:
  "from_fpath example_world ''dem.tif'' None (Some ''bitmask.tif'') [] =
     (Inr \<lparr>dims = [(''x'', [10, 30])], cells = [Num 120, NaN]\<rparr>,
      [OpenRaster ''dem.tif'', OpenRaster ''bitmask.tif''])"
  by (simp add: from_fpath_def bnd_def ret_def ext_def pure_def open_raster_def Let_def
        example_world_def example_dem_def example_bitmask_def where_gt_def NODATA_def
        where_mask_zero_def join_dims_def masked_cell_def cell_at_def squeeze_def)

lemma json_url_example:
  "json_url (Row ''https://stac/external/host/strip.json'') = Inr ''http://host/strip.json''"
  by (simp add: json_url_def external_part_def split_str_def)

lemma replace_example:
  "replace ''http://host/strip.json'' ''.json'' ''_dem_10m_shade_masked.tif''
     = ''http://host/strip_dem_10m_shade_masked.tif''"
  by simp

lemma preview_example:
  "preview example_world (Row ''https://stac/external/host/strip.json'') None [] =
     (Inr \<lparr>dims = [(''y'', [30, 10]), (''x'', [10, 30])], cells = [Num 120, NaN, NaN, Num 7]\<rparr>,
      [OpenRaster ''http://host/strip_dem_10m_shade_masked.tif''])"
  by (simp add: preview_def json_url_example replace_example from_fpath_def bnd_def ret_def
        ext_def pure_def open_raster_def Let_def example_world_def example_dem_def where_gt_def
        NODATA_def squeeze_def)

lemma stored_mosaic_example:
  "stored_mosaic example_world ''arcticdem'' (ResStr ''10m'') example_bounds None
     = Some example_dem"
  by (simp add: stored_mosaic_def example_bounds_def sanitise_bounds_def mosaic_fpaths_def
        lower_arcticdem VERSIONS_def Let_def index_layer_def get_index_fpath_def
        query_tiles_def resolution_str_def merged_tiles_def list_of_set_def
        example_world_def example_tile_fpaths)

lemma mosaic_greenland:
  "mosaic example_world ''greenland'' (ResStr ''2m'') example_bounds None [] =
     (Inl (ValueError ''Dataset must be one of <built-in method keys of dict object at 0x7f3a5c0b1e40>. Currently `greenland`.''), [])"
  by (simp add: mosaic_def Let_def lower_greenland VERSIONS_def raise_def dataset_msg_def
        keys_method_repr_def example_world_def hex_example)

lemma greenland_msg:
  "\<not> contains ''Dataset must be one of <built-in method keys of dict object at 0x7f3a5c0b1e40>. Currently `greenland`.'' ''arcticdem''
   \<and> \<not> contains ''Dataset must be one of <built-in method keys of dict object at 0x7f3a5c0b1e40>. Currently `greenland`.'' ''rema''"
  by code_simp

section \<open>The claims\<close>

text \<open>
  \<^bold>\<open>C1.\<close> In \<^verbatim>\<open>mosaic\<close>, duplicate tile paths are collapsed before loading, so that each
  unique raster path is opened and loaded exactly once.

  The paths are deduplicated (\<open>list_of_set\<close>), and the loading loop opens each remaining path
  once. But when exactly one path remains, the statement after the loop
  (\<^verbatim>\<open>if len(fpaths) == 1: dem = rxr.open_rasterio(fpaths[0])...\<close>) opens it a second time, and
  its result is overwritten two lines later. In the example world two 2 m tiles of the
  supertile \<^verbatim>\<open>14_51\<close> are requested at 10 m: the log shows the one supertile raster opened
  twice.
\<close>

theorem mosaic_single_supertile_opened_twice:
  "snd (mosaic example_world ''arcticdem'' (ResStr ''10m'') example_bounds None []) =
     [ReadIndex (PackageFile ''pdemtools.mosaic_index'' ''ArcticDEM_Mosaic_Index_v4_1_gpkg.gpkg'')
        ''ArcticDEM_Mosaic_Index_v4_1_2m'' (Some (0, 0, 2, 1)),
      OpenRaster ''https://pgc-opendata-dems.s3.us-west-2.amazonaws.com/arcticdem/mosaics/v4.1/10m/14_51/14_51_10m_v4.1_dem.tif'',
      OpenRaster ''https://pgc-opendata-dems.s3.us-west-2.amazonaws.com/arcticdem/mosaics/v4.1/10m/14_51/14_51_10m_v4.1_dem.tif'']"
  by (simp add: mosaic_example)

text \<open>
  \<^bold>\<open>C2.\<close> Every raster returned to a caller has had its singleton band dimension removed.

  \<^verbatim>\<open>from_fpath\<close> ends with \<^verbatim>\<open>dem.squeeze(drop=True)\<close>, and \<^verbatim>\<open>preview\<close>, \<^verbatim>\<open>from_search\<close> and
  \<^verbatim>\<open>from_id\<close> return what it returns. \<^verbatim>\<open>mosaic\<close> opens its rasters itself and never squeezes:
  on the same raster, \<^verbatim>\<open>mosaic\<close> returns the dimensions \<^verbatim>\<open>band, y, x\<close> where \<^verbatim>\<open>from_fpath\<close>
  returns \<^verbatim>\<open>y, x\<close>.
\<close>

theorem mosaic_keeps_band_dimension:
  "fst (mosaic example_world ''arcticdem'' (ResStr ''10m'') example_bounds None []) =
     Inr \<lparr>dims = [(''band'', [1]), (''y'', [30, 10]), (''x'', [10, 30])], cells = [Num 120, NaN, NaN, Num 7]\<rparr>
   \<and> fst (from_fpath example_world ''dem.tif'' example_bounds None []) =
     Inr \<lparr>dims = [(''y'', [30, 10]), (''x'', [10, 30])], cells = [Num 120, NaN, NaN, Num 7]\<rparr>"
  by (simp add: mosaic_example from_fpath_example)

text \<open>
  \<^bold>\<open>C3.\<close> No raster returned by a loading operation has a cell equal to the sentinel
  \<open>-9999.0\<close>; a cell whose stored value is the sentinel is the missing-data marker in the
  result.

  For each operation the stored raster \<open>d\<close> is named: the file at the path the operation
  builds, after clipping (\<open>stored_strip\<close>), or for \<^verbatim>\<open>mosaic\<close> the single or merged raster of
  the deduplicated tile paths (\<open>stored_mosaic\<close>). The result is given in terms of it: \<open>u\<close> is
  \<open>d\<close> after the sentinel filter and the bitmask (\<open>filtered_strip\<close>), \<^verbatim>\<open>preview\<close> filters once
  more, and the strip operations squeeze last, which removes dimensions of size one and
  leaves the cells and their order. At every coordinate where \<open>d\<close> holds the sentinel the
  result holds not-a-number (\<open>sentinel_cells_missing\<close>).
\<close>

theorem loaded_rasters_have_no_sentinel:
  "(from_fpath w fpath bounds bitmask_fpath evs = (Inr r, evs') \<longrightarrow>
      Num NODATA \<notin> set (cells r) \<and>
      (\<exists>d u. stored_strip w fpath bounds = Some d
          \<and> filtered_strip w fpath bounds bitmask_fpath = Some u
          \<and> r = squeeze u \<and> sentinel_cells_missing d u))
   \<and> (preview w row bounds evs = (Inr r, evs') \<longrightarrow>
      Num NODATA \<notin> set (cells r) \<and>
      (\<exists>url d u. json_url row = Inr url
          \<and> stored_strip w (replace url ''.json'' ''_dem_10m_shade_masked.tif'') bounds = Some d
          \<and> filtered_strip w (replace url ''.json'' ''_dem_10m_shade_masked.tif'') bounds None
               = Some u
          \<and> r = squeeze (where_gt u 0) \<and> sentinel_cells_missing d (where_gt u 0)))
   \<and> (from_search w row bounds bitmask evs = (Inr r, evs') \<longrightarrow>
      Num NODATA \<notin> set (cells r) \<and>
      (\<exists>url d u. json_url row = Inr url
          \<and> stored_strip w (replace url ''.json'' ''_dem.tif'') bounds = Some d
          \<and> filtered_strip w (replace url ''.json'' ''_dem.tif'') bounds
               (if bitmask then Some (replace url ''.json'' ''_bitmask.tif'') else None) = Some u
          \<and> r = squeeze u \<and> sentinel_cells_missing d u))
   \<and> (from_id w dataset geocell dem_id bounds bitmask_opt bucket strip_version prev evs
         = (Inr (Strip r), evs') \<longrightarrow>
      Num NODATA \<notin> set (cells r) \<and>
      (\<exists>d u. stored_strip w
                (path_join bucket [lower dataset, ''strips'', strip_version, ''2m'',
                                   lower geocell, dem_id @ ''_dem.tif'']) bounds = Some d
          \<and> filtered_strip w
                (path_join bucket [lower dataset, ''strips'', strip_version, ''2m'',
                                   lower geocell, dem_id @ ''_dem.tif'']) bounds
                (if bitmask_opt = Some True
                 then Some (path_join bucket [lower dataset, ''strips'', strip_version, ''2m'',
                                              lower geocell, dem_id @ ''_bitmask.tif''])
                 else None) = Some u
          \<and> r = squeeze u \<and> sentinel_cells_missing d u))
   \<and> (mosaic w dataset resolution bounds version evs = (Inr r, evs') \<longrightarrow>
      Num NODATA \<notin> set (cells r) \<and>
      (\<exists>d. stored_mosaic w dataset resolution bounds version = Some d
          \<and> r = where_gt d NODATA \<and> sentinel_cells_missing d r))
   \<and> cells (squeeze r) = cells r"
proof -
  have c1: "from_fpath w fpath bounds bitmask_fpath evs = (Inr r, evs') \<longrightarrow>
      Num NODATA \<notin> set (cells r) \<and>
      (\<exists>d u. stored_strip w fpath bounds = Some d
          \<and> filtered_strip w fpath bounds bitmask_fpath = Some u
          \<and> r = squeeze u \<and> sentinel_cells_missing d u)"
  proof
    assume "from_fpath w fpath bounds bitmask_fpath evs = (Inr r, evs')"
    from from_fpath_Inr [OF this] obtain u where
      u: "filtered_strip w fpath bounds bitmask_fpath = Some u" and r: "r = squeeze u"
      by blast
    from filtered_strip_props [OF u] obtain d where
      "stored_strip w fpath bounds = Some d" "sentinel_cells_missing d u"
      "Num NODATA \<notin> set (cells u)"
      by blast
    with u r show "Num NODATA \<notin> set (cells r) \<and>
      (\<exists>d u. stored_strip w fpath bounds = Some d
          \<and> filtered_strip w fpath bounds bitmask_fpath = Some u
          \<and> r = squeeze u \<and> sentinel_cells_missing d u)"
      by (auto simp: squeeze_cells)
  qed
  have c2: "preview w row bounds evs = (Inr r, evs') \<longrightarrow>
      Num NODATA \<notin> set (cells r) \<and>
      (\<exists>url d u. json_url row = Inr url
          \<and> stored_strip w (replace url ''.json'' ''_dem_10m_shade_masked.tif'') bounds = Some d
          \<and> filtered_strip w (replace url ''.json'' ''_dem_10m_shade_masked.tif'') bounds None
               = Some u
          \<and> r = squeeze (where_gt u 0) \<and> sentinel_cells_missing d (where_gt u 0))"
  proof
    assume "preview w row bounds evs = (Inr r, evs')"
    from preview_Inr [OF this] obtain url u where
      url: "json_url row = Inr url" and
      u: "filtered_strip w (replace url ''.json'' ''_dem_10m_shade_masked.tif'') bounds None
            = Some u" and
      r: "r = squeeze (where_gt u 0)"
      by blast
    from filtered_strip_props [OF u] obtain d where
      d: "stored_strip w (replace url ''.json'' ''_dem_10m_shade_masked.tif'') bounds = Some d"
      and s: "sentinel_cells_missing d u"
      by blast
    have "Num NODATA \<notin> set (cells r)"
      by (simp add: r squeeze_cells where_gt_zero_no_sentinel)
    with url u r d sentinel_then_where_gt [OF s] show "Num NODATA \<notin> set (cells r) \<and>
      (\<exists>url d u. json_url row = Inr url
          \<and> stored_strip w (replace url ''.json'' ''_dem_10m_shade_masked.tif'') bounds = Some d
          \<and> filtered_strip w (replace url ''.json'' ''_dem_10m_shade_masked.tif'') bounds None
               = Some u
          \<and> r = squeeze (where_gt u 0) \<and> sentinel_cells_missing d (where_gt u 0))"
      by blast
  qed
  have c3: "from_search w row bounds bitmask evs = (Inr r, evs') \<longrightarrow>
      Num NODATA \<notin> set (cells r) \<and>
      (\<exists>url d u. json_url row = Inr url
          \<and> stored_strip w (replace url ''.json'' ''_dem.tif'') bounds = Some d
          \<and> filtered_strip w (replace url ''.json'' ''_dem.tif'') bounds
               (if bitmask then Some (replace url ''.json'' ''_bitmask.tif'') else None) = Some u
          \<and> r = squeeze u \<and> sentinel_cells_missing d u)"
  proof
    assume "from_search w row bounds bitmask evs = (Inr r, evs')"
    from from_search_Inr [OF this] obtain url u where
      url: "json_url row = Inr url" and
      u: "filtered_strip w (replace url ''.json'' ''_dem.tif'') bounds
               (if bitmask then Some (replace url ''.json'' ''_bitmask.tif'') else None) = Some u"
      and r: "r = squeeze u"
      by blast
    from filtered_strip_props [OF u] obtain d where
      d: "stored_strip w (replace url ''.json'' ''_dem.tif'') bounds = Some d"
      and s: "sentinel_cells_missing d u" and n: "Num NODATA \<notin> set (cells u)"
      by blast
    from n have "Num NODATA \<notin> set (cells r)"
      by (simp add: r squeeze_cells)
    with url u r d s show "Num NODATA \<notin> set (cells r) \<and>
      (\<exists>url d u. json_url row = Inr url
          \<and> stored_strip w (replace url ''.json'' ''_dem.tif'') bounds = Some d
          \<and> filtered_strip w (replace url ''.json'' ''_dem.tif'') bounds
               (if bitmask then Some (replace url ''.json'' ''_bitmask.tif'') else None) = Some u
          \<and> r = squeeze u \<and> sentinel_cells_missing d u)"
      by blast
  qed
  let ?dem = "path_join bucket [lower dataset, ''strips'', strip_version, ''2m'',
                                   lower geocell, dem_id @ ''_dem.tif'']"
  let ?bm = "if bitmask_opt = Some True
                 then Some (path_join bucket [lower dataset, ''strips'', strip_version, ''2m'',
                                              lower geocell, dem_id @ ''_bitmask.tif''])
                 else None"
  have c4: "from_id w dataset geocell dem_id bounds bitmask_opt bucket strip_version prev evs
         = (Inr (Strip r), evs') \<longrightarrow>
      Num NODATA \<notin> set (cells r) \<and>
      (\<exists>d u. stored_strip w ?dem bounds = Some d
          \<and> filtered_strip w ?dem bounds ?bm = Some u
          \<and> r = squeeze u \<and> sentinel_cells_missing d u)"
  proof
    assume "from_id w dataset geocell dem_id bounds bitmask_opt bucket strip_version prev evs
         = (Inr (Strip r), evs')"
    from from_id_Inr [OF this] obtain u where
      u: "filtered_strip w ?dem bounds ?bm = Some u" and r: "r = squeeze u"
      by blast
    from filtered_strip_props [OF u] obtain d where
      d: "stored_strip w ?dem bounds = Some d"
      and s: "sentinel_cells_missing d u" and n: "Num NODATA \<notin> set (cells u)"
      by blast
    from n have "Num NODATA \<notin> set (cells r)"
      by (simp add: r squeeze_cells)
    with u r d s show "Num NODATA \<notin> set (cells r) \<and>
      (\<exists>d u. stored_strip w ?dem bounds = Some d
          \<and> filtered_strip w ?dem bounds ?bm = Some u
          \<and> r = squeeze u \<and> sentinel_cells_missing d u)"
      by blast
  qed
  have c5: "mosaic w dataset resolution bounds version evs = (Inr r, evs') \<longrightarrow>
      Num NODATA \<notin> set (cells r) \<and>
      (\<exists>d. stored_mosaic w dataset resolution bounds version = Some d
          \<and> r = where_gt d NODATA \<and> sentinel_cells_missing d r)"
  proof
    assume "mosaic w dataset resolution bounds version evs = (Inr r, evs')"
    from mosaic_Inr [OF this] obtain d where
      d: "stored_mosaic w dataset resolution bounds version = Some d" and
      r: "r = where_gt d NODATA"
      by blast
    have "Num NODATA \<notin> set (cells (where_gt d NODATA))"
      by (rule where_gt_no_sentinel) simp
    with d r sentinel_where_gt [of d] show "Num NODATA \<notin> set (cells r) \<and>
      (\<exists>d. stored_mosaic w dataset resolution bounds version = Some d
          \<and> r = where_gt d NODATA \<and> sentinel_cells_missing d r)"
      by blast
  qed
  have c6: "cells (squeeze r) = cells r"
    by (rule squeeze_cells)
  show ?thesis
    using c1 c2 c3 c4 c5 c6 by (intro conjI) assumption+
qed

theorem loaded_rasters_have_no_sentinel_witness:
  "from_fpath example_world ''dem.tif'' None (Some ''bitmask.tif'') [] =
     (Inr \<lparr>dims = [(''x'', [10, 30])], cells = [Num 120, NaN]\<rparr>,
      [OpenRaster ''dem.tif'', OpenRaster ''bitmask.tif''])
   \<and> cell_at example_dem [1, 30, 30] = Some (Num NODATA)
   \<and> Num NODATA \<notin> set (cells \<lparr>dims = [(''x'', [10, 30])], cells = [Num 120, NaN]\<rparr>)
   \<and> sentinel_cells_missing example_dem
        \<lparr>dims = [(''band'', [1]), (''y'', [30]), (''x'', [10, 30])], cells = [Num 120, NaN]\<rparr>
   \<and> preview example_world (Row ''https://stac/external/host/strip.json'') None [] =
     (Inr \<lparr>dims = [(''y'', [30, 10]), (''x'', [10, 30])], cells = [Num 120, NaN, NaN, Num 7]\<rparr>,
      [OpenRaster ''http://host/strip_dem_10m_shade_masked.tif''])
   \<and> Num NODATA \<notin> set (cells \<lparr>dims = [(''y'', [30, 10]), (''x'', [10, 30])],
                                  cells = [Num 120, NaN, NaN, Num 7]\<rparr>)
   \<and> fst (mosaic example_world ''arcticdem'' (ResStr ''10m'') example_bounds None []) =
       Inr \<lparr>dims = [(''band'', [1]), (''y'', [30, 10]), (''x'', [10, 30])],
             cells = [Num 120, NaN, NaN, Num 7]\<rparr>
   \<and> stored_mosaic example_world ''arcticdem'' (ResStr ''10m'') example_bounds None
       = Some example_dem
   \<and> sentinel_cells_missing example_dem
        \<lparr>dims = [(''band'', [1]), (''y'', [30, 10]), (''x'', [10, 30])],
          cells = [Num 120, NaN, NaN, Num 7]\<rparr>"
proof -
  note strip = loaded_rasters_have_no_sentinel
    [where w = example_world and fpath = "''dem.tif''" and bounds = None
       and bitmask_fpath = "Some ''bitmask.tif''" and evs = "[]"
       and evs' = "[OpenRaster ''dem.tif'', OpenRaster ''bitmask.tif'']"
       and r = "\<lparr>dims = [(''x'', [10, 30])], cells = [Num 120, NaN]\<rparr>",
     THEN conjunct1, rule_format, OF from_fpath_bitmask_example]
  note prev = loaded_rasters_have_no_sentinel
    [where w = example_world and row = "Row ''https://stac/external/host/strip.json''"
       and bounds = None and evs = "[]"
       and evs' = "[OpenRaster ''http://host/strip_dem_10m_shade_masked.tif'']"
       and r = "\<lparr>dims = [(''y'', [30, 10]), (''x'', [10, 30])],
                  cells = [Num 120, NaN, NaN, Num 7]\<rparr>",
     THEN conjunct2, THEN conjunct1, rule_format, OF preview_example]
  note mos = loaded_rasters_have_no_sentinel
    [where w = example_world and dataset = "''arcticdem''" and resolution = "ResStr ''10m''"
       and bounds = example_bounds and version = None and evs = "[]"
       and r = "\<lparr>dims = [(''band'', [1]), (''y'', [30, 10]), (''x'', [10, 30])],
                  cells = [Num 120, NaN, NaN, Num 7]\<rparr>",
     THEN conjunct2, THEN conjunct2, THEN conjunct2, THEN conjunct2, THEN conjunct1,
     rule_format, OF mosaic_example]
  have stored: "cell_at example_dem [1, 30, 30] = Some (Num NODATA)"
    by (simp add: cell_at_def example_dem_def NODATA_def)
  from strip have s1: "Num NODATA \<notin> set (cells \<lparr>dims = [(''x'', [10, 30])], cells = [Num 120, NaN]\<rparr>)"
    by (rule conjunct1)
  from strip obtain d1 u1 where
    d1: "stored_strip example_world ''dem.tif'' None = Some d1" and
    u1: "filtered_strip example_world ''dem.tif'' None (Some ''bitmask.tif'') = Some u1" and
    m1: "sentinel_cells_missing d1 u1"
    by blast
  from d1 have "d1 = example_dem"
    by (simp add: stored_strip_example)
  moreover from u1 have "u1 =
      \<lparr>dims = [(''band'', [1]), (''y'', [30]), (''x'', [10, 30])], cells = [Num 120, NaN]\<rparr>"
    by (simp add: filtered_strip_example)
  ultimately have s2: "sentinel_cells_missing example_dem
        \<lparr>dims = [(''band'', [1]), (''y'', [30]), (''x'', [10, 30])], cells = [Num 120, NaN]\<rparr>"
    using m1 by simp
  from prev have p1: "Num NODATA \<notin> set (cells \<lparr>dims = [(''y'', [30, 10]), (''x'', [10, 30])],
                                  cells = [Num 120, NaN, NaN, Num 7]\<rparr>)"
    by blast
  from mos obtain d where
    d: "stored_mosaic example_world ''arcticdem'' (ResStr ''10m'') example_bounds None = Some d"
    and m2: "sentinel_cells_missing d
        \<lparr>dims = [(''band'', [1]), (''y'', [30, 10]), (''x'', [10, 30])],
          cells = [Num 120, NaN, NaN, Num 7]\<rparr>"
    by blast
  from d have "d = example_dem"
    by (simp add: stored_mosaic_example)
  with d m2 from_fpath_bitmask_example preview_example mosaic_example stored s1 s2 p1
  show ?thesis
    by simp
qed

text \<open>
  \<^bold>\<open>C4.\<close> For an unsupported dataset, version or resolution, \<^verbatim>\<open>mosaic\<close> raises a validation
  error before any input or output, and the message contains the accepted values of the
  offending parameter.

  The three checks do run before anything is opened, and the messages for the version and
  the resolution print the accepted lists. The message for the dataset formats
  \<^verbatim>\<open>{VERSIONS.keys}\<close>, without the call parentheses: it prints the bound method, not the
  keys. For the dataset \<^verbatim>\<open>greenland\<close> the message names neither \<^verbatim>\<open>arcticdem\<close> nor \<^verbatim>\<open>rema\<close>.
\<close>

theorem mosaic_dataset_message_lacks_accepted_values:
  "mosaic example_world ''greenland'' (ResStr ''2m'') example_bounds None [] =
     (Inl (ValueError (dataset_msg example_world ''greenland'')), [])
   \<and> dataset_msg example_world ''greenland'' =
       ''Dataset must be one of <built-in method keys of dict object at 0x7f3a5c0b1e40>. Currently `greenland`.''
   \<and> \<not> contains (dataset_msg example_world ''greenland'') ''arcticdem''
   \<and> \<not> contains (dataset_msg example_world ''greenland'') ''rema''"
proof -
  have msg: "dataset_msg example_world ''greenland'' =
       ''Dataset must be one of <built-in method keys of dict object at 0x7f3a5c0b1e40>. Currently `greenland`.''"
    by (simp add: dataset_msg_def keys_method_repr_def example_world_def hex_example)
  show ?thesis
    unfolding msg using mosaic_greenland greenland_msg by simp
qed

text \<open>
  \<^bold>\<open>C5.\<close> A call to \<^verbatim>\<open>mosaic\<close> with a supported dataset, version and resolution whose
  bounds meet no tile of the index fails with the no-data error, which is distinguishable
  from the validation errors.

  All of these are \<^verbatim>\<open>ValueError\<close>s; they differ in their messages. The index has been read
  when the error is raised, and nothing else.
\<close>

theorem mosaic_no_tiles_is_nodata_error:
  assumes "map_of VERSIONS (lower dataset) = Some versions"
    and "version = None \<or> (\<exists>v. version = Some v \<and> v \<in> set versions)"
    and "resolution_str resolution \<in> set VALID_MOSAIC_RES"
    and "index_layer (lower dataset) (case version of None \<Rightarrow> last versions | Some v \<Rightarrow> v) = Inr layer"
    and "get_index_fpath (lower dataset) (case version of None \<Rightarrow> last versions | Some v \<Rightarrow> v) = Inr fpath"
    and "query_tiles w fpath layer (map_option (sanitise_bounds w) bounds) = []"
  shows "mosaic w dataset resolution bounds version evs =
           (Inl (ValueError nodata_msg),
            evs @ [ReadIndex fpath layer (map_option (sanitise_bounds w) bounds)])
         \<and> nodata_msg \<noteq> dataset_msg w' d
         \<and> nodata_msg \<noteq> version_msg d vs v'
         \<and> nodata_msg \<noteq> resolution_msg r
         \<and> nodata_msg \<noteq> config_msg"
proof -
  have msgs: "nodata_msg \<noteq> dataset_msg w' d" "nodata_msg \<noteq> version_msg d vs v'"
    "nodata_msg \<noteq> resolution_msg r" "nodata_msg \<noteq> config_msg"
    by (simp_all add: nodata_msg_def dataset_msg_def version_msg_def resolution_msg_def
          config_msg_def)
  from assms(2) have "mosaic w dataset resolution bounds version evs =
           (Inl (ValueError nodata_msg),
            evs @ [ReadIndex fpath layer (map_option (sanitise_bounds w) bounds)])"
  proof
    assume "version = None"
    with assms(1,3-6) show ?thesis
      by (simp add: mosaic_def Let_def bnd_def ret_def read_file_def raise_def pure_def)
  next
    assume "\<exists>v. version = Some v \<and> v \<in> set versions"
    then obtain v where "version = Some v" "v \<in> set versions" by blast
    with assms(1,3-6) show ?thesis
      by (simp add: mosaic_def Let_def bnd_def ret_def read_file_def raise_def pure_def)
  qed
  with msgs show ?thesis by simp
qed

theorem mosaic_no_tiles_is_nodata_error_witness:
  "map_of VERSIONS (lower ''REMA'') = Some [''v2.0'']
   \<and> resolution_str (ResInt 32) \<in> set VALID_MOSAIC_RES
   \<and> query_tiles empty_world (PackageFile ''pdemtools.mosaic_index'' REMA_V2_INDEX_FNAME)
        REMA_V2_INDEX_2M_LAYER_NAME (map_option (sanitise_bounds empty_world) example_bounds) = []
   \<and> mosaic empty_world ''REMA'' (ResInt 32) example_bounds None [] =
       (Inl (ValueError nodata_msg),
        [ReadIndex (PackageFile ''pdemtools.mosaic_index'' REMA_V2_INDEX_FNAME)
           REMA_V2_INDEX_2M_LAYER_NAME (Some (0, 0, 2, 1))])"
proof -
  have h1: "map_of VERSIONS (lower ''REMA'') = Some [''v2.0'']"
    by (simp add: lower_REMA VERSIONS_def)
  have h2: "(None :: string option) = None \<or> (\<exists>v. None = Some v \<and> v \<in> set [''v2.0''])"
    by simp
  have h3: "resolution_str (ResInt 32) \<in> set VALID_MOSAIC_RES"
    by (simp add: resolution_str_def str_int_32 VALID_MOSAIC_RES_def)
  have h4: "index_layer (lower ''REMA'')
      (case None of None \<Rightarrow> last [''v2.0''] | Some v \<Rightarrow> v) = Inr REMA_V2_INDEX_2M_LAYER_NAME"
    by (simp add: lower_REMA index_layer_def)
  have h5: "get_index_fpath (lower ''REMA'')
      (case None of None \<Rightarrow> last [''v2.0''] | Some v \<Rightarrow> v)
         = Inr (PackageFile ''pdemtools.mosaic_index'' REMA_V2_INDEX_FNAME)"
    by (simp add: lower_REMA get_index_fpath_def)
  have h6: "query_tiles empty_world (PackageFile ''pdemtools.mosaic_index'' REMA_V2_INDEX_FNAME)
        REMA_V2_INDEX_2M_LAYER_NAME (map_option (sanitise_bounds empty_world) example_bounds) = []"
    by (simp add: query_tiles_def empty_world_def example_world_def example_bounds_def)
  have b: "map_option (sanitise_bounds empty_world) example_bounds = Some (0, 0, 2, 1)"
    by (simp add: example_bounds_def sanitise_bounds_def)
  from mosaic_no_tiles_is_nodata_error [OF h1 h2 h3 h4 h5 h6, of "[]"] h1 h3 h6 show ?thesis
    by (simp add: b)
qed

text \<open>
  \<^bold>\<open>C6.\<close> When \<^verbatim>\<open>mosaic\<close> is called without a version, the version used is the most recent
  one of the dataset (\<^verbatim>\<open>v4.1\<close> for \<^verbatim>\<open>arcticdem\<close>, \<^verbatim>\<open>v2.0\<close> for \<^verbatim>\<open>rema\<close>); an explicit version
  that is not in the list of the dataset is rejected.
\<close>

theorem mosaic_default_version_is_latest:
  "(lower dataset = ''arcticdem'' \<longrightarrow>
      mosaic w dataset resolution bounds None = mosaic w dataset resolution bounds (Some ''v4.1''))
   \<and> (lower dataset = ''rema'' \<longrightarrow>
      mosaic w dataset resolution bounds None = mosaic w dataset resolution bounds (Some ''v2.0''))
   \<and> (map_of VERSIONS (lower dataset) = Some versions \<and> v \<notin> set versions \<longrightarrow>
      mosaic w dataset resolution bounds (Some v) evs
        = (Inl (ValueError (version_msg (lower dataset) versions v)), evs))"
proof (intro conjI impI)
  assume "lower dataset = ''arcticdem''"
  then show "mosaic w dataset resolution bounds None
      = mosaic w dataset resolution bounds (Some ''v4.1'')"
    by (simp add: mosaic_def Let_def VERSIONS_def)
next
  assume "lower dataset = ''rema''"
  then show "mosaic w dataset resolution bounds None
      = mosaic w dataset resolution bounds (Some ''v2.0'')"
    by (simp add: mosaic_def Let_def VERSIONS_def)
next
  assume "map_of VERSIONS (lower dataset) = Some versions \<and> v \<notin> set versions"
  then show "mosaic w dataset resolution bounds (Some v) evs
        = (Inl (ValueError (version_msg (lower dataset) versions v)), evs)"
    by (simp add: mosaic_unknown_version)
qed

theorem mosaic_default_version_is_latest_witness:
  "lower ''ArcticDEM'' = ''arcticdem''
   \<and> mosaic example_world ''ArcticDEM'' (ResStr ''10m'') example_bounds None
       = mosaic example_world ''ArcticDEM'' (ResStr ''10m'') example_bounds (Some ''v4.1'')
   \<and> map_of VERSIONS (lower ''ArcticDEM'') = Some [''v3.0'', ''v4.1'']
   \<and> ''v2.0'' \<notin> set [''v3.0'', ''v4.1'']
   \<and> mosaic example_world ''ArcticDEM'' (ResStr ''10m'') example_bounds (Some ''v2.0'') []
       = (Inl (ValueError (version_msg ''arcticdem'' [''v3.0'', ''v4.1''] ''v2.0'')), [])"
proof -
  have h1: "lower ''ArcticDEM'' = ''arcticdem''"
    by (rule lower_ArcticDEM)
  have h2: "map_of VERSIONS (lower ''ArcticDEM'') = Some [''v3.0'', ''v4.1''] \<and>
      ''v2.0'' \<notin> set [''v3.0'', ''v4.1'']"
    by (simp add: h1 VERSIONS_def)
  from mosaic_default_version_is_latest
    [of "''ArcticDEM''" example_world "ResStr ''10m''" example_bounds
       "[''v3.0'', ''v4.1'']" "''v2.0''" "[]"] h1 h2
  show ?thesis by simp
qed

text \<open>
  \<^bold>\<open>C7.\<close> Calling \<^verbatim>\<open>mosaic\<close> with the integer resolution 10 behaves as calling it with the
  string \<^verbatim>\<open>"10m"\<close>, and likewise for 2 and \<^verbatim>\<open>"2m"\<close>, 32 and \<^verbatim>\<open>"32m"\<close>: the same result and
  the same files opened, in every world.
\<close>

theorem mosaic_int_resolution_same_as_str:
  "mosaic w dataset (ResInt 2) bounds version = mosaic w dataset (ResStr ''2m'') bounds version
   \<and> mosaic w dataset (ResInt 10) bounds version = mosaic w dataset (ResStr ''10m'') bounds version
   \<and> mosaic w dataset (ResInt 32) bounds version = mosaic w dataset (ResStr ''32m'') bounds version"
  by (simp add: mosaic_def Let_def resolution_str_def str_int_2 str_int_10 str_int_32
        split: option.split)

text \<open>
  \<^bold>\<open>C8.\<close> The mosaic tile path is
  \<^verbatim>\<open>{root}/{dataset}/mosaics/{version}/{resolution}/{supertile}/{identifier}{suffix}\<close>, with the
  tile code as identifier at \<^verbatim>\<open>2m\<close> and the supertile code at \<^verbatim>\<open>10m\<close> and \<^verbatim>\<open>32m\<close>, and with
  the \<^verbatim>\<open>_reg\<close> marker in the suffix exactly for \<^verbatim>\<open>arcticdem\<close> \<^verbatim>\<open>v3.0\<close>.

  The path is built by \<^verbatim>\<open>os.path.join\<close>, which adds no separator after an empty component
  and starts afresh at a component that begins with one. For a tile record with an empty
  supertile code the result has one separator where the template has two.
\<close>

theorem aws_link_empty_supertile_counterexample:
  "aws_link \<lparr>tile = ''14_51_1_1'', supertile = [], geometry = Polygon []\<rparr>
       ''arcticdem'' ''v4.1'' ''10m'' PREFIX
     = Inr ''https://pgc-opendata-dems.s3.us-west-2.amazonaws.com/arcticdem/mosaics/v4.1/10m/_10m_v4.1_dem.tif''
   \<and> spec_mosaic_tile_path PREFIX ''arcticdem'' ''v4.1'' ''10m'' []
        (spec_identifier \<lparr>tile = ''14_51_1_1'', supertile = [], geometry = Polygon []\<rparr> ''10m'')
        (spec_suffix ''arcticdem'' ''v4.1'' ''10m'')
     = ''https://pgc-opendata-dems.s3.us-west-2.amazonaws.com/arcticdem/mosaics/v4.1/10m//_10m_v4.1_dem.tif''
   \<and> aws_link \<lparr>tile = ''14_51_1_1'', supertile = [], geometry = Polygon []\<rparr>
       ''arcticdem'' ''v4.1'' ''10m'' PREFIX
     \<noteq> Inr (spec_mosaic_tile_path PREFIX ''arcticdem'' ''v4.1'' ''10m'' []
        (spec_identifier \<lparr>tile = ''14_51_1_1'', supertile = [], geometry = Polygon []\<rparr> ''10m'')
        (spec_suffix ''arcticdem'' ''v4.1'' ''10m''))"
  by (simp add: aws_link_def path_join_def join_step_def startswith_sep_def endswith_sep_def
        PREFIX_def spec_mosaic_tile_path_def spec_identifier_def spec_suffix_def)

text \<open>
  \<^bold>\<open>C8, amended.\<close> For a resolution among \<^verbatim>\<open>2m\<close>, \<^verbatim>\<open>10m\<close>, \<^verbatim>\<open>32m\<close>, a root that is not
  empty and does not end with the separator, a dataset, version and supertile code that are
  not empty and neither begin nor end with the separator, and a tile code that does not begin
  with it, the path is the template, with the tile code as identifier at \<^verbatim>\<open>2m\<close> and the
  supertile code at \<^verbatim>\<open>10m\<close> and \<^verbatim>\<open>32m\<close>, and with the \<^verbatim>\<open>_reg\<close> marker in the suffix exactly for
  \<^verbatim>\<open>arcticdem\<close> \<^verbatim>\<open>v3.0\<close>.
\<close>

theorem aws_link_path_layout:
  assumes "resolution \<in> set VALID_MOSAIC_RES"
    and "prefix \<noteq> []" and "\<not> endswith_sep prefix"
    and "plain_component dataset" and "plain_component version"
    and "plain_component (supertile row)"
    and "\<not> startswith_sep (tile row)"
  shows "aws_link row dataset version resolution prefix =
           Inr (spec_mosaic_tile_path prefix dataset version resolution (supertile row)
                  (spec_identifier row resolution) (spec_suffix dataset version resolution))"
proof -
  let ?ident = "spec_identifier row resolution"
  let ?suffix = "spec_suffix dataset version resolution"
  have link: "aws_link row dataset version resolution prefix =
      Inr (path_join prefix
             ([dataset, ''mosaics'', version, resolution, supertile row] @ [?ident @ ?suffix]))"
    using assms(1)
    by (auto simp: aws_link_def Let_def VALID_MOSAIC_RES_def spec_identifier_def spec_suffix_def)
  have mosaics: "plain_component ''mosaics''"
    by (simp add: plain_component_def startswith_sep_def endswith_sep_def)
  have comps: "\<forall>b \<in> set [dataset, ''mosaics'', version, resolution, supertile row]. plain_component b"
    using assms(4-6) mosaics valid_res_plain [OF assms(1)] by simp
  have "\<not> startswith_sep ?ident"
    using assms(6,7) by (simp add: spec_identifier_def plain_component_def)
  then have fname: "\<not> startswith_sep (?ident @ ?suffix)"
    by (simp add: spec_suffix_def fname_not_startswith_sep)
  show ?thesis
    unfolding link path_join_plain [OF assms(2,3) comps fname]
    by (simp add: spec_mosaic_tile_path_def)
qed

theorem aws_link_path_layout_witness:
  "''2m'' \<in> set VALID_MOSAIC_RES
   \<and> plain_component ''arcticdem'' \<and> plain_component ''v3.0'' \<and> plain_component ''14_51''
   \<and> \<not> startswith_sep ''14_51_1_1''
   \<and> aws_link \<lparr>tile = ''14_51_1_1'', supertile = ''14_51'', geometry = Polygon []\<rparr>
        ''arcticdem'' ''v3.0'' ''2m'' PREFIX
      = Inr ''https://pgc-opendata-dems.s3.us-west-2.amazonaws.com/arcticdem/mosaics/v3.0/2m/14_51/14_51_1_1_2m_v3.0_reg_dem.tif''"
proof -
  have h1: "''2m'' \<in> set VALID_MOSAIC_RES"
    by (simp add: VALID_MOSAIC_RES_def)
  have h2: "PREFIX \<noteq> []" and h3: "\<not> endswith_sep PREFIX"
    by (simp_all add: PREFIX_def endswith_sep_def)
  have h4: "plain_component ''arcticdem''" and h5: "plain_component ''v3.0''"
    and h6: "plain_component (supertile \<lparr>tile = ''14_51_1_1'', supertile = ''14_51'', geometry = Polygon []\<rparr>)"
    and h7: "\<not> startswith_sep (tile \<lparr>tile = ''14_51_1_1'', supertile = ''14_51'', geometry = Polygon []\<rparr>)"
    by (simp_all add: plain_component_def startswith_sep_def endswith_sep_def)
  from aws_link_path_layout [OF h1 h2 h3 h4 h5 h6 h7] h1 h4 h5 h6 h7 show ?thesis
    by (simp add: spec_mosaic_tile_path_def spec_identifier_def spec_suffix_def PREFIX_def)
qed

text \<open>
  \<^bold>\<open>C9.\<close> In \<^verbatim>\<open>mosaic\<close> and \<^verbatim>\<open>_get_index_fpath\<close> the configuration error for an unresolvable
  dataset and version is unreachable once the dataset and the version have passed the
  checks: the validated combinations are exactly the ones the two lookups know.

  \<^verbatim>\<open>mosaic\<close> never returns the configuration error, in any world and for any arguments; the
  layer lookup and the file-name lookup succeed exactly on the pairs of \<^verbatim>\<open>VERSIONS\<close>.
\<close>

theorem config_error_unreachable:
  "fst (mosaic w dataset resolution bounds version evs) \<noteq> Inl (ValueError config_msg)
   \<and> ((\<exists>versions. map_of VERSIONS d = Some versions \<and> v \<in> set versions)
        \<longleftrightarrow> (\<exists>layer. index_layer d v = Inr layer))
   \<and> ((\<exists>versions. map_of VERSIONS d = Some versions \<and> v \<in> set versions)
        \<longleftrightarrow> (\<exists>fpath. get_index_fpath d v = Inr fpath))"
proof (intro conjI)
  show "fst (mosaic w dataset resolution bounds version evs) \<noteq> Inl (ValueError config_msg)"
    by (rule mosaic_never_config_error)
next
  show "(\<exists>versions. map_of VERSIONS d = Some versions \<and> v \<in> set versions)
        \<longleftrightarrow> (\<exists>layer. index_layer d v = Inr layer)"
    by (auto simp: VERSIONS_def index_layer_def split: if_splits)
next
  show "(\<exists>versions. map_of VERSIONS d = Some versions \<and> v \<in> set versions)
        \<longleftrightarrow> (\<exists>fpath. get_index_fpath d v = Inr fpath)"
    by (auto simp: VERSIONS_def get_index_fpath_def split: if_splits)
qed

theorem config_error_unreachable_witness:
  "map_of VERSIONS ''rema'' = Some [''v2.0''] \<and> ''v2.0'' \<in> set [''v2.0'']
   \<and> (\<exists>layer. index_layer ''rema'' ''v2.0'' = Inr layer)
   \<and> (\<exists>fpath. get_index_fpath ''rema'' ''v2.0'' = Inr fpath)
   \<and> fst (mosaic example_world ''rema'' (ResStr ''2m'') example_bounds (Some ''v2.0'') [])
        \<noteq> Inl (ValueError config_msg)"
proof -
  have h: "map_of VERSIONS ''rema'' = Some [''v2.0''] \<and> ''v2.0'' \<in> set [''v2.0'']"
    by (simp add: VERSIONS_def)
  then have ex: "\<exists>versions. map_of VERSIONS ''rema'' = Some versions \<and> ''v2.0'' \<in> set versions"
    by blast
  from config_error_unreachable
    [of example_world "''rema''" "ResStr ''2m''" example_bounds "Some ''v2.0''" "[]"
        "''rema''" "''v2.0''"] ex h
  show ?thesis by blast
qed

text \<open>
  \<^bold>\<open>C10.\<close> \<^verbatim>\<open>from_id\<close> lowercases the dataset and the geocell before it builds any path, so a
  geocell in mixed case gives the same strip path, bitmask path and preview link as its
  lowercase form.
\<close>

theorem from_id_geocell_case_insensitive:
  "from_id w dataset geocell dem_id bounds bitmask bucket version prev
     = from_id w dataset (lower geocell) dem_id bounds bitmask bucket version prev
   \<and> from_id w dataset geocell dem_id bounds bitmask bucket version prev
     = from_id w (lower dataset) geocell dem_id bounds bitmask bucket version prev
   \<and> from_id w dataset ''N70W051'' dem_id bounds bitmask bucket version prev
     = from_id w dataset ''n70w051'' dem_id bounds bitmask bucket version prev"
proof -
  have geo: "from_id w dataset g dem_id bounds bitmask bucket version prev
     = from_id w dataset (lower g) dem_id bounds bitmask bucket version prev" for g
    by (simp add: from_id_def lower_idem)
  have ds: "from_id w dataset geocell dem_id bounds bitmask bucket version prev
     = from_id w (lower dataset) geocell dem_id bounds bitmask bucket version prev"
    by (simp add: from_id_def lower_idem)
  from geo [of "''N70W051''"] geo [of geocell] ds show ?thesis
    by (simp add: lower_ex)
qed

end
